theory Spec2Isabelle
  imports Complex_Main
begin

text \<open>
  The server of Road-Trip Rally, \<^verbatim>\<open>server.js\<close>: a world generated from a seed, a
  simulation of cars and fuel at 20 ticks a second, rooms with a lobby and a running
  phase, and the socket handlers that drive them. The repository holds the file twice;
  the second copy writes the same handlers more tightly (it takes the default name
  before cutting it to 18 characters, and its rooms and players lack the unused fields
  \<^verbatim>\<open>lastTick\<close>, \<^verbatim>\<open>vx\<close>, \<^verbatim>\<open>vy\<close>), and the first copy is the one followed here.
\<close>

section \<open>JavaScript values\<close>

text \<open>
  The server is JavaScript. Its numbers are IEEE doubles; here a finite number is a real,
  and the three special values a message field can turn into are kept apart, because the
  input handler's \<^verbatim>\<open>+v || 0\<close> exists to remove one of them.
\<close>

datatype jsnum = NaN | PosInf | NegInf | Fin real

text \<open>
  A field of a decoded message. A string, an array or an object is \<open>JOther n b\<close>, where
  \<open>n\<close> is what ECMAScript's ToNumber gives for it and \<open>b\<close> what ToBoolean gives: the
  handlers observe such a value through these two coercions alone.
\<close>

datatype jsval = JUndefined | JNull | JBool bool | JNum jsnum | JOther jsnum bool

text \<open>The unary \<^verbatim>\<open>+v\<close>.\<close>

fun ToNumber :: "jsval \<Rightarrow> jsnum" where
  "ToNumber JUndefined = NaN"
| "ToNumber JNull = Fin 0"
| "ToNumber (JBool b) = Fin (if b then 1 else 0)"
| "ToNumber (JNum n) = n"
| "ToNumber (JOther n b) = n"

fun num_truthy :: "jsnum \<Rightarrow> bool" where
  "num_truthy NaN = False"
| "num_truthy (Fin r) = (r \<noteq> 0)"
| "num_truthy PosInf = True"
| "num_truthy NegInf = True"

text \<open>The double negation \<^verbatim>\<open>!!v\<close>.\<close>

fun ToBoolean :: "jsval \<Rightarrow> bool" where
  "ToBoolean JUndefined = False"
| "ToBoolean JNull = False"
| "ToBoolean (JBool b) = b"
| "ToBoolean (JNum n) = num_truthy n"
| "ToBoolean (JOther n b) = b"

text \<open>\<^verbatim>\<open>a || b\<close> on numbers.\<close>

definition js_or :: "jsnum \<Rightarrow> jsnum \<Rightarrow> jsnum" where
  "js_or a b = (if num_truthy a then a else b)"

fun Math_min :: "jsnum \<Rightarrow> jsnum \<Rightarrow> jsnum" where
  "Math_min NaN b = NaN"
| "Math_min a NaN = NaN"
| "Math_min NegInf b = NegInf"
| "Math_min a NegInf = NegInf"
| "Math_min PosInf b = b"
| "Math_min a PosInf = a"
| "Math_min (Fin a) (Fin b) = Fin (min a b)"

fun Math_max :: "jsnum \<Rightarrow> jsnum \<Rightarrow> jsnum" where
  "Math_max NaN b = NaN"
| "Math_max a NaN = NaN"
| "Math_max PosInf b = PosInf"
| "Math_max a PosInf = PosInf"
| "Math_max NegInf b = b"
| "Math_max a NegInf = a"
| "Math_max (Fin a) (Fin b) = Fin (max a b)"

text \<open>
  The player record stores finite numbers only, as reals; \<open>num_val\<close> reads the real out
  of a finite number. The handlers apply it to clamped values, which are finite
  (lemma \<open>clamp_finite\<close> below), so its value elsewhere is never used.
\<close>

fun num_val :: "jsnum \<Rightarrow> real" where
  "num_val (Fin r) = r"
| "num_val NaN = 0"
| "num_val PosInf = 0"
| "num_val NegInf = 0"

section \<open>World generator\<close>

text \<open>
  \<^verbatim>\<open>noise1\<close>, \<^verbatim>\<open>roadCenterX\<close> and \<^verbatim>\<open>poiForY\<close> of server.js, over the reals:
  \<^verbatim>\<open>Math.floor\<close> is \<open>\<lfloor>_\<rfloor>\<close>, \<^verbatim>\<open>Math.sin\<close> is \<open>sin\<close>. The inner function \<^verbatim>\<open>rnd\<close>
  of \<^verbatim>\<open>noise1\<close> closes over the seed, which is its first argument here.
\<close>

definition rnd :: "real \<Rightarrow> real \<Rightarrow> real" where
  "rnd sd n = (let x = sin ((n + sd) * 12345.678) * 43758.5453 in x - of_int \<lfloor>x\<rfloor>)"

definition noise1 :: "real \<Rightarrow> real \<Rightarrow> real" where
  "noise1 sd y =
     (let y0 = of_int \<lfloor>y\<rfloor>;
          y1 = y0 + 1;
          t = y - y0;
          smooth = t * t * (3 - 2 * t)
      in rnd sd y0 * (1 - smooth) + rnd sd y1 * smooth)"

definition roadCenterX :: "real \<Rightarrow> real \<Rightarrow> real" where
  "roadCenterX sd yMeters = (let n = noise1 sd (yMeters * 0.0025) * 2 - 1 in n * 25)"

datatype poi_type = NoPoi | Gas | Hotel | Store | Town

text \<open>
  The object \<^verbatim>\<open>poiForY\<close> returns; its fields \<^verbatim>\<open>k, type, x, y, radius\<close> carry the prefix
  \<open>poi_\<close>, since a record field is a constant of the theory.
\<close>

record poi =
  poi_k :: real
  poi_type :: poi_type
  poi_x :: real
  poi_y :: real
  poi_radius :: real

definition SEG :: real where
  "SEG = 800"

definition poiForY :: "real \<Rightarrow> real \<Rightarrow> poi" where
  "poiForY sd yMeters =
     (let k = of_int \<lfloor>yMeters / SEG\<rfloor>;
          r = noise1 (sd + 9999) (k * 1.0);
          type = (if r < 0.22 then Gas
                  else if r < 0.38 then Hotel
                  else if r < 0.54 then Store
                  else if r < 0.68 then Town
                  else NoPoi);
          centerX = roadCenterX sd (k * SEG + SEG * 0.5);
          side = (if r < 0.5 then - 1 else 1);
          x = centerX + side * (7 + 10);
          y = k * SEG + SEG * 0.5
      in \<lparr>poi_k = k, poi_type = type, poi_x = x, poi_y = y,
          poi_radius = (if type = Town then 22 else 10)\<rparr>)"

section \<open>Objects used as dictionaries\<close>

text \<open>
  \<^verbatim>\<open>rooms\<close> and \<^verbatim>\<open>room.players\<close> are objects created with \<^verbatim>\<open>Object.create(null)\<close>
  and keyed by strings. \<^verbatim>\<open>Object.keys\<close> and \<^verbatim>\<open>Object.values\<close> list the entries in the
  order the keys were first assigned, and the host handoff depends on that order, so an
  object is a list of entries: assigning to a key that is present keeps its place,
  assigning to a new key appends, \<^verbatim>\<open>delete\<close> drops the entry. (JavaScript lists keys
  that are array indices first; socket ids are not, and for room codes the order only
  decides which of two independent rooms is ticked first.)
\<close>

type_synonym 'v obj = "(string \<times> 'v) list"

fun obj_get :: "string \<Rightarrow> 'v obj \<Rightarrow> 'v option" where
  "obj_get k [] = None"
| "obj_get k ((k', v) # es) = (if k' = k then Some v else obj_get k es)"

fun obj_set :: "string \<Rightarrow> 'v \<Rightarrow> 'v obj \<Rightarrow> 'v obj" where
  "obj_set k v [] = [(k, v)]"
| "obj_set k v ((k', v') # es) = (if k' = k then (k, v) # es else (k', v') # obj_set k v es)"

fun obj_delete :: "string \<Rightarrow> 'v obj \<Rightarrow> 'v obj" where
  "obj_delete k [] = []"
| "obj_delete k ((k', v) # es) = (if k' = k then obj_delete k es else (k', v) # obj_delete k es)"

definition obj_keys :: "'v obj \<Rightarrow> string list" where
  "obj_keys es = map fst es"

definition obj_values :: "'v obj \<Rightarrow> 'v list" where
  "obj_values es = map snd es"

section \<open>Data model\<close>

text \<open>
  The object \<^verbatim>\<open>makePlayer\<close> builds. The fields \<^verbatim>\<open>id, name, color, x, y\<close> are \<open>pid\<close>,
  \<open>pname\<close>, \<open>pcolor\<close>, \<open>px\<close>, \<open>py\<close> here; the others keep their names. Times are
  the milliseconds of \<^verbatim>\<open>Date.now()\<close>.
\<close>

record player =
  pid :: string
  pname :: string
  pcolor :: string
  px :: real
  py :: real
  angle :: real
  vx :: real
  vy :: real
  speed :: real
  fuel :: real
  maxFuel :: real
  throttle :: real
  brake :: real
  steer :: real
  refuel :: bool
  distance :: real
  ready :: bool
  isHost :: bool
  lastHeard :: int

datatype phase = Lobby | Running

record room =
  code :: string
  createdAt :: int
  seed :: int
  phase :: phase
  players :: "player obj"
  lastTick :: int

text \<open>The per-player entry of \<^verbatim>\<open>snapshotRoom\<close>, and the snapshot it returns.\<close>

record lobby_entry =
  l_id :: string
  l_name :: string
  l_color :: string
  l_ready :: bool
  l_isHost :: bool
  l_distance :: real

record snapshot =
  snap_code :: string
  snap_phase :: phase
  snap_seed :: int
  snap_players :: "lobby_entry list"

text \<open>The per-player entry of the payload \<^verbatim>\<open>tickRoom\<close> emits, and that payload.\<close>

record state_entry =
  s_id :: string
  s_name :: string
  s_color :: string
  s_x :: real
  s_y :: real
  s_angle :: real
  s_speed :: real
  s_fuel :: real
  s_maxFuel :: real
  s_distance :: real

record state_payload =
  st_phase :: phase
  st_seed :: int
  st_players :: "state_entry list"
  st_t :: int

text \<open>
  What a handler emits. \<open>StateRaw\<close> is the \<^verbatim>\<open>state\<close> message of the disconnect handler,
  whose payload is \<^verbatim>\<open>{ players: Object.values(r.players) }\<close>: the player objects
  themselves.
\<close>

datatype msg =
    Joined snapshot string
  | LobbyMsg snapshot
  | Start int
  | StateMsg state_payload
  | StateRaw "player list"
  | ErrorMsg string
  | Pong jsval

text \<open>
  \<^verbatim>\<open>socket.emit\<close> reaches one connection, \<^verbatim>\<open>io.to(code).emit\<close> the connections the
  transport holds in the room of that code; who they are is the transport's business
  (\<^verbatim>\<open>socket.join\<close>, \<^verbatim>\<open>socket.leave\<close>) and is not modelled.
\<close>

datatype out = ToSocket string msg | ToRoom string msg

text \<open>
  The server's state: the global \<^verbatim>\<open>rooms\<close>, and for each connection (by socket id) the
  variable \<^verbatim>\<open>joinedCode\<close> of its closure, \<open>None\<close> for \<^verbatim>\<open>null\<close>.
\<close>

record state =
  rooms :: "room obj"
  joinedCode :: "string \<rightharpoonup> string"

definition init :: state where
  "init = \<lparr>rooms = [], joinedCode = Map.empty\<rparr>"

definition TICK_HZ :: real where
  "TICK_HZ = 20"

definition DT :: real where
  "DT = 1 / TICK_HZ"

definition ROOM_TTL_MS :: int where
  "ROOM_TTL_MS = 1000 * 60 * 60"

definition makePlayer :: "string \<Rightarrow> string \<Rightarrow> string \<Rightarrow> int \<Rightarrow> player" where
  "makePlayer i n c now =
     \<lparr>pid = i, pname = n, pcolor = c,
      px = 0, py = 0, angle = 0,
      vx = 0, vy = 0, speed = 0,
      fuel = 100, maxFuel = 100,
      throttle = 0, brake = 0, steer = 0, refuel = False,
      distance = 0,
      ready = False, isHost = False, lastHeard = now\<rparr>"

definition snapshotRoom :: "room \<Rightarrow> snapshot" where
  "snapshotRoom r =
     \<lparr>snap_code = code r,
      snap_phase = phase r,
      snap_seed = seed r,
      snap_players = map (\<lambda>p. \<lparr>l_id = pid p, l_name = pname p, l_color = pcolor p,
                                 l_ready = ready p, l_isHost = isHost p,
                                 l_distance = distance p\<rparr>)
                         (obj_values (players r))\<rparr>"

section \<open>Rooms and the game loop\<close>

text \<open>
  \<^verbatim>\<open>createRoom\<close> draws codes with \<^verbatim>\<open>makeCode()\<close> until one is free, then draws the seed.
  \<^verbatim>\<open>Math.random\<close> is outside the program: the codes \<^verbatim>\<open>makeCode()\<close> returns in turn are
  the argument \<open>cands\<close> and the seed's draw is \<open>u\<close>. The loop has no bound in the source;
  when no code of \<open>cands\<close> is free the result is \<open>None\<close>. The second component is
  \<^verbatim>\<open>rooms\<close> after the assignment \<^verbatim>\<open>rooms[code] = {...}\<close>.
\<close>

definition createRoom :: "string list \<Rightarrow> real \<Rightarrow> int \<Rightarrow> room obj \<Rightarrow> (room \<times> room obj) option" where
  "createRoom cands u now rs =
     (case find (\<lambda>c. obj_get c rs = None) cands of
        None \<Rightarrow> None
      | Some c \<Rightarrow>
          (let r = \<lparr>code = c, createdAt = now, seed = \<lfloor>u * 1000000000\<rfloor>, phase = Lobby,
                    players = [], lastTick = now\<rparr>
           in Some (r, obj_set c r rs)))"

text \<open>One pass of the loop of \<^verbatim>\<open>destroyEmptyStaleRooms\<close>, and the loop over the keys.\<close>

definition sweep_one :: "int \<Rightarrow> string \<Rightarrow> room obj \<Rightarrow> room obj" where
  "sweep_one t c rs =
     (case obj_get c rs of
        None \<Rightarrow> rs
      | Some r \<Rightarrow>
          if length (obj_keys (players r)) = 0 \<and> t - createdAt r > ROOM_TTL_MS
          then obj_delete c rs else rs)"

definition destroyEmptyStaleRooms :: "int \<Rightarrow> room obj \<Rightarrow> room obj" where
  "destroyEmptyStaleRooms t rs = fold (sweep_one t) (obj_keys rs) rs"

text \<open>The constants of \<^verbatim>\<open>phys\<close> in \<^verbatim>\<open>tickRoom\<close>.\<close>

definition phys_accel :: real where "phys_accel = 8.0"
definition phys_brake :: real where "phys_brake = 10.0"
definition phys_baseFriction :: real where "phys_baseFriction = 0.9"
definition phys_maxSpeed :: real where "phys_maxSpeed = 45"
definition phys_turnRate :: real where "phys_turnRate = 1.8"
definition phys_offroadFriction :: real where "phys_offroadFriction = 0.65"
definition phys_fuelBurn :: real where "phys_fuelBurn = 0.015"
definition phys_roadHalfW :: real where "phys_roadHalfW = 7.0"

text \<open>
  The body of the loop of \<^verbatim>\<open>tickRoom\<close> over the players, in the order of the source
  and cut into its paragraphs. \<^verbatim>\<open>Math.pow\<close> of a positive base is \<open>powr\<close>,
  \<^verbatim>\<open>Math.hypot\<close> the root of the sum of squares. \<open>onRoad\<close> is computed once, before
  the car moves, and used again by the fuel burn.
\<close>

definition idle_stage :: "int \<Rightarrow> player \<Rightarrow> player" where
  "idle_stage now p =
     (if now - lastHeard p > 10000
      then p\<lparr>throttle := 0, steer := 0, brake := 0, refuel := False\<rparr> else p)"

definition speed_stage :: "bool \<Rightarrow> player \<Rightarrow> player" where
  "speed_stage onRoad p =
     (let aFwd = (throttle p * phys_accel) - (brake p * phys_brake);
          p1 = p\<lparr>speed := speed p + aFwd * DT\<rparr>;
          friction = (if onRoad then phys_baseFriction else phys_offroadFriction) powr DT;
          p2 = p1\<lparr>speed := speed p1 * friction\<rparr>;
          p3 = (if speed p2 > phys_maxSpeed then p2\<lparr>speed := phys_maxSpeed\<rparr> else p2)
      in (if speed p3 < - 10 then p3\<lparr>speed := - 10\<rparr> else p3))"

definition steer_stage :: "player \<Rightarrow> player" where
  "steer_stage p =
     (let steerFactor = 0.2 + 0.8 * min (\<bar>speed p\<bar> / phys_maxSpeed) 1
      in p\<lparr>angle := angle p + steer p * phys_turnRate * steerFactor * DT\<rparr>)"

definition move_stage :: "player \<Rightarrow> player" where
  "move_stage p =
     (let dx = sin (angle p) * speed p * DT;
          dy = cos (angle p) * speed p * DT;
          p1 = p\<lparr>px := px p + dx\<rparr>;
          p2 = p1\<lparr>py := py p1 + dy\<rparr>
      in (if dy > 0 then p2\<lparr>distance := distance p2 + dy\<rparr> else p2))"

definition burn_stage :: "bool \<Rightarrow> player \<Rightarrow> player" where
  "burn_stage onRoad p =
     (if throttle p > 0 \<and> speed p > 0.2
      then (let p1 = p\<lparr>fuel := fuel p - phys_fuelBurn * throttle p * (if onRoad then 1 else 1.8)\<rparr>
            in (if fuel p1 < 0 then p1\<lparr>fuel := 0\<rparr> else p1))
      else p)"

definition refuel_stage :: "int \<Rightarrow> player \<Rightarrow> player" where
  "refuel_stage sd p =
     (if refuel p \<and> fuel p < maxFuel p
      then (let poi = poiForY (of_int sd) (py p);
                dist = sqrt ((px p - poi_x poi)\<^sup>2 + (py p - poi_y poi)\<^sup>2)
            in (if (poi_type poi = Gas \<or> poi_type poi = Town \<or> poi_type poi = Store)
                   \<and> dist \<le> poi_radius poi + 3
                then (let p1 = p\<lparr>fuel := fuel p + 30 * DT\<rparr>
                      in (if fuel p1 > maxFuel p1 then p1\<lparr>fuel := maxFuel p1\<rparr> else p1))
                else p))
      else p)"

definition exhaust_stage :: "player \<Rightarrow> player" where
  "exhaust_stage p =
     (if fuel p \<le> 0 \<and> speed p > 0 then p\<lparr>speed := speed p * (0.5 powr DT)\<rparr> else p)"

definition tickPlayer :: "int \<Rightarrow> int \<Rightarrow> player \<Rightarrow> player" where
  "tickPlayer now sd p =
     (let p1 = idle_stage now p;
          cx = roadCenterX (of_int sd) (py p1);
          off = \<bar>px p1 - cx\<bar>;
          onRoad = (off \<le> phys_roadHalfW)
      in exhaust_stage (refuel_stage sd (burn_stage onRoad
           (move_stage (steer_stage (speed_stage onRoad p1))))))"

text \<open>\<^verbatim>\<open>tickRoom\<close>: every player advanced in place, and the \<^verbatim>\<open>state\<close> message emitted.\<close>

definition tickRoom :: "int \<Rightarrow> room \<Rightarrow> room \<times> out" where
  "tickRoom now r =
     (let r' = r\<lparr>players := map (\<lambda>(k, p). (k, tickPlayer now (seed r) p)) (players r)\<rparr>;
          payload =
            \<lparr>st_phase = phase r',
             st_seed = seed r',
             st_players = map (\<lambda>p. \<lparr>s_id = pid p, s_name = pname p, s_color = pcolor p,
                                      s_x = px p, s_y = py p, s_angle = angle p,
                                      s_speed = speed p, s_fuel = fuel p,
                                      s_maxFuel = maxFuel p, s_distance = distance p\<rparr>)
                              (obj_values (players r')),
             st_t = now\<rparr>
      in (r', ToRoom (code r') (StateMsg payload)))"

text \<open>
  The callback of \<^verbatim>\<open>setInterval\<close>: one pass over the keys of \<^verbatim>\<open>rooms\<close>, ticking the
  running rooms, then the sweep. The clock is read once for the whole callback.
\<close>

definition tick_one :: "int \<Rightarrow> string \<Rightarrow> room obj \<times> out list \<Rightarrow> room obj \<times> out list" where
  "tick_one now c acc =
     (case obj_get c (fst acc) of
        None \<Rightarrow> acc
      | Some r \<Rightarrow>
          if phase r = Running
          then (obj_set c (fst (tickRoom now r)) (fst acc), snd acc @ [snd (tickRoom now r)])
          else acc)"

definition interval :: "int \<Rightarrow> state \<Rightarrow> state \<times> out list" where
  "interval now s =
     (let acc = fold (tick_one now) (obj_keys (rooms s)) (rooms s, [])
      in (s\<lparr>rooms := destroyEmptyStaleRooms now (fst acc)\<rparr>, snd acc))"

section \<open>Socket handlers\<close>

text \<open>
  Each handler of \<^verbatim>\<open>io.on("connection", ...)\<close> takes the socket id, the message, the
  clock and the state, and returns the state and what it emitted. Messages are typed as
  the clients send them: \<^verbatim>\<open>name\<close>, \<^verbatim>\<open>color\<close> and \<^verbatim>\<open>code\<close> are strings or missing, the
  four fields of an input message are arbitrary values. Strings are bytes:
  \<^verbatim>\<open>toUpperCase\<close> and \<^verbatim>\<open>trim\<close> are modelled on ASCII.
\<close>

definition upper_char :: "char \<Rightarrow> char" where
  "upper_char c =
     (let n = (of_char c :: nat) in if 97 \<le> n \<and> n \<le> 122 then char_of (n - 32) else c)"

definition toUpperCase :: "string \<Rightarrow> string" where
  "toUpperCase s = map upper_char s"

definition is_space :: "char \<Rightarrow> bool" where
  "is_space c = ((of_char c :: nat) \<in> {9, 10, 11, 12, 13, 32})"

definition trim :: "string \<Rightarrow> string" where
  "trim s = rev (dropWhile is_space (rev (dropWhile is_space s)))"

text \<open>\<^verbatim>\<open>v || d\<close> for a string that may be missing: the empty string is falsy too.\<close>

definition str_or :: "string option \<Rightarrow> string \<Rightarrow> string" where
  "str_or v d = (case v of None \<Rightarrow> d | Some t \<Rightarrow> if t = [] then d else t)"

text \<open>\<^verbatim>\<open>name?.slice(0,18) || "Driver"\<close>.\<close>

definition driver_name :: "string option \<Rightarrow> string" where
  "driver_name n = str_or (map_option (take 18) n) ''Driver''"

definition pingCheck_handler :: "string \<Rightarrow> jsval \<Rightarrow> state \<Rightarrow> state \<times> out list" where
  "pingCheck_handler sid d s = (s, [ToSocket sid (Pong d)])"

definition createRoom_handler ::
  "string \<Rightarrow> string option \<Rightarrow> string option \<Rightarrow> string list \<Rightarrow> real \<Rightarrow> int \<Rightarrow> state
   \<Rightarrow> (state \<times> out list) option" where
  "createRoom_handler sid name color cands u now s =
     (case createRoom cands u now (rooms s) of
        None \<Rightarrow> None
      | Some (room0, rs) \<Rightarrow>
          (let p = (makePlayer sid (driver_name name) (str_or color ''#5ec8f8'') now)\<lparr>isHost := True\<rparr>;
               room = room0\<lparr>players := obj_set sid p (players room0)\<rparr>
           in Some (s\<lparr>rooms := obj_set (code room) room rs,
                       joinedCode := (joinedCode s)(sid \<mapsto> code room)\<rparr>,
                    [ToSocket sid (Joined (snapshotRoom room) sid),
                     ToRoom (code room) (LobbyMsg (snapshotRoom room))])))"

definition joinRoom_handler ::
  "string \<Rightarrow> string option \<Rightarrow> string option \<Rightarrow> string option \<Rightarrow> int \<Rightarrow> state
   \<Rightarrow> state \<times> out list" where
  "joinRoom_handler sid code0 name color now s =
     (let c = trim (toUpperCase (str_or code0 []))
      in case obj_get c (rooms s) of
           None \<Rightarrow> (s, [ToSocket sid (ErrorMsg ''Room not found.'')])
         | Some room0 \<Rightarrow>
             if phase room0 \<noteq> Lobby then (s, [ToSocket sid (ErrorMsg ''Game already started.'')])
             else if length (obj_keys (players room0)) \<ge> 12
             then (s, [ToSocket sid (ErrorMsg ''Room full.'')])
             else (let p = makePlayer sid (driver_name name) (str_or color ''#f6a93b'') now;
                       room = room0\<lparr>players := obj_set sid p (players room0)\<rparr>
                   in (s\<lparr>rooms := obj_set c room (rooms s),
                          joinedCode := (joinedCode s)(sid \<mapsto> c)\<rparr>,
                       [ToSocket sid (Joined (snapshotRoom room) sid),
                        ToRoom c (LobbyMsg (snapshotRoom room))])))"

text \<open>
  \<^verbatim>\<open>rooms[joinedCode]\<close> followed by \<^verbatim>\<open>r.players[socket.id]\<close>, the opening of four
  handlers: the code, the room and the player, when all of them exist.
\<close>

definition my_room :: "string \<Rightarrow> state \<Rightarrow> (string \<times> room) option" where
  "my_room sid s =
     (case joinedCode s sid of
        None \<Rightarrow> None
      | Some c \<Rightarrow> (case obj_get c (rooms s) of None \<Rightarrow> None | Some r \<Rightarrow> Some (c, r)))"

definition my_player :: "string \<Rightarrow> state \<Rightarrow> (string \<times> room \<times> player) option" where
  "my_player sid s =
     (case my_room sid s of
        None \<Rightarrow> None
      | Some (c, r) \<Rightarrow> (case obj_get sid (players r) of None \<Rightarrow> None | Some p \<Rightarrow> Some (c, r, p)))"

definition setReady_handler :: "string \<Rightarrow> jsval \<Rightarrow> state \<Rightarrow> state \<times> out list" where
  "setReady_handler sid rdy s =
     (case my_player sid s of
        None \<Rightarrow> (s, [])
      | Some (c, r, p) \<Rightarrow>
          (let r' = r\<lparr>players := obj_set sid (p\<lparr>ready := ToBoolean rdy\<rparr>) (players r)\<rparr>
           in (s\<lparr>rooms := obj_set c r' (rooms s)\<rparr>, [ToRoom c (LobbyMsg (snapshotRoom r'))])))"

definition startGame_handler :: "string \<Rightarrow> state \<Rightarrow> state \<times> out list" where
  "startGame_handler sid s =
     (case my_player sid s of
        None \<Rightarrow> (s, [])
      | Some (c, r, p) \<Rightarrow>
          if \<not> isHost p then (s, [])
          else (s\<lparr>rooms := obj_set c (r\<lparr>phase := Running\<rparr>) (rooms s)\<rparr>,
                [ToRoom c (Start (seed r))]))"

text \<open>
  The payload of an input message, an object: its four fields, each any value,
  \<open>JUndefined\<close> when missing. (A payload that is no object at all is not modelled;
  on \<^verbatim>\<open>null\<close> the handler's \<^verbatim>\<open>data.throttle\<close> throws.)
\<close>

record input_data =
  i_throttle :: jsval
  i_brake :: jsval
  i_steer :: jsval
  i_refuel :: jsval

text \<open>\<^verbatim>\<open>Math.max(lo, Math.min(hi, +v || 0))\<close>.\<close>

definition clamp_field :: "real \<Rightarrow> real \<Rightarrow> jsval \<Rightarrow> jsnum" where
  "clamp_field lo hi v = Math_max (Fin lo) (Math_min (Fin hi) (js_or (ToNumber v) (Fin 0)))"

definition input_handler :: "string \<Rightarrow> input_data \<Rightarrow> int \<Rightarrow> state \<Rightarrow> state \<times> out list" where
  "input_handler sid data now s =
     (case my_player sid s of
        None \<Rightarrow> (s, [])
      | Some (c, r, p) \<Rightarrow>
          (let p' = p\<lparr>throttle := num_val (clamp_field 0 1 (i_throttle data)),
                      brake := num_val (clamp_field 0 1 (i_brake data)),
                      steer := num_val (clamp_field (- 1) 1 (i_steer data)),
                      refuel := ToBoolean (i_refuel data),
                      lastHeard := now\<rparr>
           in (s\<lparr>rooms := obj_set c (r\<lparr>players := obj_set sid p' (players r)\<rparr>) (rooms s)\<rparr>, [])))"

definition leaveRoom_handler :: "string \<Rightarrow> int \<Rightarrow> state \<Rightarrow> state \<times> out list" where
  "leaveRoom_handler sid now s =
     (case my_room sid s of
        None \<Rightarrow> (s, [])
      | Some (c, r) \<Rightarrow>
          (let r1 = r\<lparr>players := obj_delete sid (players r)\<rparr>;
               s1 = s\<lparr>joinedCode := (joinedCode s)(sid := None)\<rparr>
           in if length (obj_keys (players r1)) = 0
              then (s1\<lparr>rooms := obj_set c (r1\<lparr>createdAt := now - ROOM_TTL_MS - 1\<rparr>) (rooms s)\<rparr>, [])
              else (s1\<lparr>rooms := obj_set c r1 (rooms s)\<rparr>,
                    [ToRoom (code r1) (LobbyMsg (snapshotRoom r1))])))"

text \<open>\<^verbatim>\<open>const first = Object.values(r.players)[0]; if (first) first.isHost = true;\<close>\<close>

fun promote_first :: "player obj \<Rightarrow> player obj" where
  "promote_first [] = []"
| "promote_first ((k, p) # es) = (k, p\<lparr>isHost := True\<rparr>) # es"

definition disconnect_handler :: "string \<Rightarrow> int \<Rightarrow> state \<Rightarrow> state \<times> out list" where
  "disconnect_handler sid now s =
     (case my_room sid s of
        None \<Rightarrow> (s, [])
      | Some (c, r) \<Rightarrow>
          (let wasHost = (case obj_get sid (players r) of None \<Rightarrow> False | Some p \<Rightarrow> isHost p);
               r1 = r\<lparr>players := obj_delete sid (players r)\<rparr>;
               r2 = (if wasHost then r1\<lparr>players := promote_first (players r1)\<rparr> else r1)
           in if length (obj_keys (players r2)) = 0
              then (s\<lparr>rooms := obj_set c (r2\<lparr>createdAt := now - ROOM_TTL_MS - 1\<rparr>) (rooms s)\<rparr>, [])
              else (s\<lparr>rooms := obj_set c r2 (rooms s)\<rparr>,
                    [ToRoom (code r2)
                       (if phase r2 = Lobby then LobbyMsg (snapshotRoom r2)
                        else StateRaw (obj_values (players r2)))])))"

section \<open>The server as a transition system\<close>

text \<open>
  Node runs one handler or one timer callback at a time, to its end. An event is a
  message from a socket, the socket's disconnection, or the timer; it comes with the
  reading of the clock.
\<close>

datatype event =
    CreateRoom string "string option" "string option" "string list" real
  | JoinRoom string "string option" "string option" "string option"
  | SetReady string jsval
  | StartGame string
  | Input string input_data
  | LeaveRoom string
  | Disconnect string
  | PingCheck string jsval
  | Interval

fun step :: "int \<Rightarrow> event \<Rightarrow> state \<Rightarrow> (state \<times> out list) option" where
  "step now (CreateRoom sid name color cands u) s = createRoom_handler sid name color cands u now s"
| "step now (JoinRoom sid code0 name color) s = Some (joinRoom_handler sid code0 name color now s)"
| "step now (SetReady sid rdy) s = Some (setReady_handler sid rdy s)"
| "step now (StartGame sid) s = Some (startGame_handler sid s)"
| "step now (Input sid data) s = Some (input_handler sid data now s)"
| "step now (LeaveRoom sid) s = Some (leaveRoom_handler sid now s)"
| "step now (Disconnect sid) s = Some (disconnect_handler sid now s)"
| "step now (PingCheck sid d) s = Some (pingCheck_handler sid d s)"
| "step now Interval s = Some (interval now s)"

text \<open>A run: the events in turn; \<open>None\<close> when a \<^verbatim>\<open>createRoom\<close> finds no free code.\<close>

fun run :: "(int \<times> event) list \<Rightarrow> state \<Rightarrow> state option" where
  "run [] s = Some s"
| "run ((now, e) # es) s = (case step now e s of None \<Rightarrow> None | Some (s', outs) \<Rightarrow> run es s')"

section \<open>Example states\<close>

text \<open>
  A room created by socket \<open>h\<close> and joined by socket \<open>g\<close>, which types the code in
  lower case with blanks around it; the theorems below are evaluated on it. The seed's
  draw is 0, so the seed is 0.
\<close>

definition demo_events :: "(int \<times> event) list" where
  "demo_events =
     [(0, CreateRoom ''h'' (Some ''Ann'') None [''ABCDEF''] 0),
      (1, JoinRoom ''g'' (Some '' abcdef '') (Some ''Bob'') None)]"

definition demo_host :: player where
  "demo_host = (makePlayer ''h'' ''Ann'' ''#5ec8f8'' 0)\<lparr>isHost := True\<rparr>"

definition demo_guest :: player where
  "demo_guest = makePlayer ''g'' ''Bob'' ''#f6a93b'' 1"

definition demo_room :: room where
  "demo_room = \<lparr>code = ''ABCDEF'', createdAt = 0, seed = 0, phase = Lobby,
                 players = [(''h'', demo_host), (''g'', demo_guest)], lastTick = 0\<rparr>"

definition demo_lobby :: state where
  "demo_lobby = \<lparr>rooms = [(''ABCDEF'', demo_room)],
                  joinedCode = [''h'' \<mapsto> ''ABCDEF'', ''g'' \<mapsto> ''ABCDEF'']\<rparr>"

text \<open>The same room after the host has started the game.\<close>

definition demo_running :: state where
  "demo_running = demo_lobby\<lparr>rooms := [(''ABCDEF'', demo_room\<lparr>phase := Running\<rparr>)]\<rparr>"

text \<open>
  An input message with a throttle out of range, no brake, and strings for the steering
  and the refuel flag.
\<close>

definition demo_input :: input_data where
  "demo_input = \<lparr>i_throttle = JNum (Fin 7), i_brake = JUndefined,
                  i_steer = JOther NaN True, i_refuel = JOther NaN True\<rparr>"

text \<open>The host's car with the throttle fully open, and with the brake held.\<close>

definition demo_forward :: player where
  "demo_forward = demo_host\<lparr>throttle := 1\<rparr>"

definition demo_reverse :: player where
  "demo_reverse = demo_host\<lparr>brake := 1\<rparr>"

text \<open>The example room in the lobby with twelve players.\<close>

definition demo_full :: state where
  "demo_full = demo_lobby\<lparr>rooms :=
     [(''ABCDEF'', demo_room\<lparr>players :=
        map (\<lambda>k. (k, makePlayer k ''Driver'' ''#f6a93b'' 1))
          [''p01'', ''p02'', ''p03'', ''p04'', ''p05'', ''p06'',
           ''p07'', ''p08'', ''p09'', ''p10'', ''p11'', ''p12'']\<rparr>)]\<rparr>"

section \<open>Predicates on states\<close>

text \<open>The room with code \<open>c\<close> is there and running; it is running unless it is gone.\<close>

definition present_running :: "string \<Rightarrow> room obj \<Rightarrow> bool" where
  "present_running c rs = (case obj_get c rs of None \<Rightarrow> False | Some r \<Rightarrow> phase r = Running)"

definition running_or_gone :: "string \<Rightarrow> room obj \<Rightarrow> bool" where
  "running_or_gone c rs = (case obj_get c rs of None \<Rightarrow> True | Some r \<Rightarrow> phase r = Running)"

text \<open>The bounds of the spec on a player's fuel and speed, for one player and for all.\<close>

definition fuel_ok :: "player \<Rightarrow> bool" where
  "fuel_ok p = (0 \<le> fuel p \<and> fuel p \<le> maxFuel p)"

definition speed_ok :: "player \<Rightarrow> bool" where
  "speed_ok p = (- 10 \<le> speed p \<and> speed p \<le> 45)"

definition bounded :: "player \<Rightarrow> bool" where
  "bounded p = (fuel_ok p \<and> speed_ok p)"

definition players_ok :: "player obj \<Rightarrow> bool" where
  "players_ok ps = (\<forall>e \<in> set ps. bounded (snd e))"

definition rooms_ok :: "room obj \<Rightarrow> bool" where
  "rooms_ok rs = (\<forall>e \<in> set rs. players_ok (players (snd e)))"

text \<open>The player of socket \<open>k\<close> in the room with code \<open>c\<close>.\<close>

definition player_at :: "string \<Rightarrow> string \<Rightarrow> state \<Rightarrow> player option" where
  "player_at c k s = (case obj_get c (rooms s) of None \<Rightarrow> None | Some r \<Rightarrow> obj_get k (players r))"

text \<open>The events of the simulation: input messages and the timer.\<close>

fun sim_event :: "event \<Rightarrow> bool" where
  "sim_event (Input sid data) = True"
| "sim_event Interval = True"
| "sim_event e = False"

text \<open>The player at \<open>c\<close>, \<open>k\<close> is there and has come at least as far as \<open>q\<close>.\<close>

definition keeps_up :: "string \<Rightarrow> string \<Rightarrow> player \<Rightarrow> room obj \<Rightarrow> bool" where
  "keeps_up c k q rs =
     (case obj_get c rs of
        None \<Rightarrow> False
      | Some r \<Rightarrow> (case obj_get k (players r) of
                     None \<Rightarrow> False
                   | Some q' \<Rightarrow> distance q \<le> distance q'))"

section \<open>Facts about the world generator\<close>

lemma rnd_range: "0 \<le> rnd sd n \<and> rnd sd n < 1"
  unfolding rnd_def Let_def by linarith

lemma noise1_lattice: "noise1 sd (of_int j) = rnd sd (of_int j)"
  by (simp add: noise1_def)

section \<open>Facts about objects\<close>

lemma obj_get_set: "obj_get k (obj_set k' v es) = (if k = k' then Some v else obj_get k es)"
  by (induction es) auto

lemma obj_get_delete: "obj_get k (obj_delete k' es) = (if k = k' then None else obj_get k es)"
  by (induction es) auto

lemma obj_get_in_set: "obj_get k es = Some v \<Longrightarrow> (k, v) \<in> set es"
  by (induction es) (auto split: if_splits)

lemma obj_get_map_values:
  "obj_get k (map (\<lambda>(k, v). (k, f v)) es) = map_option f (obj_get k es)"
  by (induction es) auto

lemma obj_keys_set_present:
  "obj_get k es = Some v \<Longrightarrow> obj_keys (obj_set k v2 es) = obj_keys es"
  by (induction es) (auto simp: obj_keys_def)

lemma obj_keys_nonempty: "obj_get k es = Some v \<Longrightarrow> length (obj_keys es) \<noteq> 0"
  by (cases es) (simp_all add: obj_keys_def)

lemma set_obj_set: "set (obj_set k v es) \<subseteq> insert (k, v) (set es)"
  by (induction es) (auto split: if_splits)

lemma set_obj_delete: "set (obj_delete k es) \<subseteq> set es"
  by (induction es) (auto split: if_splits)

section \<open>Facts about the handlers\<close>

lemma clamp_finite:
  "lo \<le> hi \<Longrightarrow> \<exists>t. clamp_field lo hi v = Fin t \<and> lo \<le> t \<and> t \<le> hi"
  unfolding clamp_field_def js_or_def
  by (cases "ToNumber v") auto

lemma clamp_number:
  "lo \<le> 0 \<Longrightarrow> 0 \<le> hi \<Longrightarrow> clamp_field lo hi (JNum (Fin x)) = Fin (max lo (min hi x))"
  unfolding clamp_field_def js_or_def by auto

lemma clamp_nan: "lo \<le> 0 \<Longrightarrow> 0 \<le> hi \<Longrightarrow> ToNumber v = NaN \<Longrightarrow> clamp_field lo hi v = Fin 0"
  unfolding clamp_field_def js_or_def by auto

lemma my_room_D:
  "my_room sid s = Some (c, r) \<Longrightarrow> joinedCode s sid = Some c \<and> obj_get c (rooms s) = Some r"
  by (auto simp: my_room_def split: option.splits)

lemma my_player_D:
  "my_player sid s = Some (c, r, p) \<Longrightarrow>
     joinedCode s sid = Some c \<and> obj_get c (rooms s) = Some r \<and> obj_get sid (players r) = Some p"
  by (auto simp: my_player_def my_room_def split: option.splits)

lemma my_player_put:
  assumes "my_player sid s = Some (c, r, p)"
  shows "my_player sid (s\<lparr>rooms := obj_set c (r\<lparr>players := obj_set sid p' (players r)\<rparr>) (rooms s)\<rparr>)
         = Some (c, r\<lparr>players := obj_set sid p' (players r)\<rparr>, p')"
  using my_player_D[OF assms] by (simp add: my_player_def my_room_def obj_get_set)

lemma createRoom_fresh:
  "createRoom cands u now rs = Some (r0, rs') \<Longrightarrow>
     obj_get (code r0) rs = None \<and> rs' = obj_set (code r0) r0 rs \<and> phase r0 = Lobby"
  by (auto simp: createRoom_def Let_def find_Some_iff split: option.splits)

lemma run_append:
  "run (es @ fs) s = (case run es s of None \<Rightarrow> None | Some s' \<Rightarrow> run fs s')"
  by (induction es arbitrary: s) (auto split: option.splits)

section \<open>One tick of one player\<close>

lemma halving_factor: "0 < (0.5::real) powr DT \<and> (0.5::real) powr DT \<le> 1"
  by (simp add: DT_def TICK_HZ_def powr_le1)

lemma friction_positive: "0 < (if b then phys_baseFriction else phys_offroadFriction) powr DT"
  by (simp add: phys_baseFriction_def phys_offroadFriction_def)

lemma idle_stage_keeps:
  "fuel (idle_stage now p) = fuel p" "maxFuel (idle_stage now p) = maxFuel p"
  "speed (idle_stage now p) = speed p" "py (idle_stage now p) = py p"
  "distance (idle_stage now p) = distance p"
  by (simp_all add: idle_stage_def)

lemma speed_stage_keeps:
  "fuel (speed_stage b p) = fuel p" "maxFuel (speed_stage b p) = maxFuel p"
  "py (speed_stage b p) = py p" "distance (speed_stage b p) = distance p"
  by (simp_all add: speed_stage_def Let_def)

lemma speed_stage_ok: "speed_ok (speed_stage b p)"
  by (simp add: speed_stage_def speed_ok_def Let_def phys_maxSpeed_def)

lemma steer_stage_keeps:
  "fuel (steer_stage p) = fuel p" "maxFuel (steer_stage p) = maxFuel p"
  "speed (steer_stage p) = speed p" "py (steer_stage p) = py p"
  "distance (steer_stage p) = distance p"
  by (simp_all add: steer_stage_def Let_def)

lemma move_stage_keeps:
  "fuel (move_stage p) = fuel p" "maxFuel (move_stage p) = maxFuel p"
  "speed (move_stage p) = speed p"
  by (simp_all add: move_stage_def Let_def)

lemma move_stage_distance:
  "distance (move_stage p)
     = (if py (move_stage p) - py p > 0 then distance p + (py (move_stage p) - py p)
        else distance p)"
  by (simp add: move_stage_def Let_def)

lemma burn_stage_keeps:
  "maxFuel (burn_stage b p) = maxFuel p" "speed (burn_stage b p) = speed p"
  "py (burn_stage b p) = py p" "distance (burn_stage b p) = distance p"
  by (simp_all add: burn_stage_def Let_def)

lemma burn_stage_ok: "fuel_ok p \<Longrightarrow> fuel_ok (burn_stage b p)"
proof -
  assume ok: "fuel_ok p"
  have "throttle p > 0 \<Longrightarrow> 0 \<le> phys_fuelBurn * throttle p * (if b then 1 else 1.8)"
    by (simp add: phys_fuelBurn_def)
  with ok show ?thesis
    by (auto simp: burn_stage_def fuel_ok_def Let_def)
qed

lemma refuel_stage_keeps:
  "maxFuel (refuel_stage sd p) = maxFuel p" "speed (refuel_stage sd p) = speed p"
  "py (refuel_stage sd p) = py p" "distance (refuel_stage sd p) = distance p"
  by (simp_all add: refuel_stage_def Let_def)

lemma refuel_stage_ok: "fuel_ok p \<Longrightarrow> fuel_ok (refuel_stage sd p)"
  by (auto simp: refuel_stage_def fuel_ok_def Let_def DT_def TICK_HZ_def)

lemma exhaust_stage_keeps:
  "fuel (exhaust_stage p) = fuel p" "maxFuel (exhaust_stage p) = maxFuel p"
  "py (exhaust_stage p) = py p" "distance (exhaust_stage p) = distance p"
  by (simp_all add: exhaust_stage_def)

lemma exhaust_stage_ok: "speed_ok p \<Longrightarrow> speed_ok (exhaust_stage p)"
proof (cases "fuel p \<le> 0 \<and> speed p > 0")
  case True
  assume ok: "speed_ok p"
  define x where "x = speed p * (0.5 powr DT)"
  have e: "exhaust_stage p = p\<lparr>speed := x\<rparr>"
    using True by (simp add: exhaust_stage_def x_def)
  have "0 \<le> x" and "x \<le> speed p"
    using True halving_factor by (simp_all add: x_def mult_left_le)
  with ok show ?thesis
    by (simp add: e speed_ok_def)
next
  case False
  assume "speed_ok p"
  with False show ?thesis
    by (auto simp: exhaust_stage_def)
qed

lemma tickPlayer_ok: "fuel_ok p \<Longrightarrow> fuel_ok (tickPlayer now sd p) \<and> speed_ok (tickPlayer now sd p)"
proof -
  assume ok: "fuel_ok p"
  define b where "b = (\<bar>px (idle_stage now p) - roadCenterX (of_int sd) (py (idle_stage now p))\<bar>
                        \<le> phys_roadHalfW)"
  define q where "q = move_stage (steer_stage (speed_stage b (idle_stage now p)))"
  have t: "tickPlayer now sd p = exhaust_stage (refuel_stage sd (burn_stage b q))"
    by (simp add: tickPlayer_def Let_def b_def q_def)
  have "fuel_ok q"
    using ok by (simp add: fuel_ok_def q_def move_stage_keeps steer_stage_keeps
        speed_stage_keeps idle_stage_keeps)
  then have f: "fuel_ok (refuel_stage sd (burn_stage b q))"
    by (intro refuel_stage_ok burn_stage_ok)
  have "speed_ok q"
    using speed_stage_ok[of b "idle_stage now p"]
    by (simp add: speed_ok_def q_def move_stage_keeps steer_stage_keeps)
  then have s: "speed_ok (refuel_stage sd (burn_stage b q))"
    by (simp add: speed_ok_def refuel_stage_keeps burn_stage_keeps)
  from f s show ?thesis
    unfolding t by (simp add: exhaust_stage_ok) (simp add: fuel_ok_def exhaust_stage_keeps)
qed

lemma tickPlayer_distance:
  "distance (tickPlayer now sd p)
     = (if py (tickPlayer now sd p) - py p > 0
        then distance p + (py (tickPlayer now sd p) - py p) else distance p)"
proof -
  define b where "b = (\<bar>px (idle_stage now p) - roadCenterX (of_int sd) (py (idle_stage now p))\<bar>
                        \<le> phys_roadHalfW)"
  define q where "q = steer_stage (speed_stage b (idle_stage now p))"
  have t: "tickPlayer now sd p = exhaust_stage (refuel_stage sd (burn_stage b (move_stage q)))"
    by (simp add: tickPlayer_def Let_def b_def q_def)
  have q: "py q = py p" "distance q = distance p"
    by (simp_all add: q_def steer_stage_keeps speed_stage_keeps idle_stage_keeps)
  show ?thesis
    unfolding t using move_stage_distance[of q]
    by (simp add: exhaust_stage_keeps refuel_stage_keeps burn_stage_keeps q)
qed

lemma tickPlayer_distance_le: "distance p \<le> distance (tickPlayer now sd p)"
  using tickPlayer_distance[of now sd p] by (simp split: if_splits)

lemma tickPlayer_py:
  "\<exists>b. py (tickPlayer now sd p)
        = py p + cos (angle (steer_stage (speed_stage b (idle_stage now p))))
                 * speed (speed_stage b (idle_stage now p)) * DT"
proof -
  define b where "b = (\<bar>px (idle_stage now p) - roadCenterX (of_int sd) (py (idle_stage now p))\<bar>
                        \<le> phys_roadHalfW)"
  define q where "q = steer_stage (speed_stage b (idle_stage now p))"
  have t: "tickPlayer now sd p = exhaust_stage (refuel_stage sd (burn_stage b (move_stage q)))"
    by (simp add: tickPlayer_def Let_def b_def q_def)
  have "py (tickPlayer now sd p) = py q + cos (angle q) * speed q * DT"
    unfolding t by (simp add: exhaust_stage_keeps refuel_stage_keeps burn_stage_keeps)
      (simp add: move_stage_def Let_def)
  then show ?thesis
    by (auto simp: q_def steer_stage_keeps speed_stage_keeps idle_stage_keeps intro!: exI[of _ b])
qed

lemma forward_moves:
  assumes "throttle p > 0" "brake p = 0" "steer p = 0" "angle p = 0" "speed p \<ge> 0"
    and "now - lastHeard p \<le> 10000"
  shows "py p < py (tickPlayer now sd p)"
proof -
  from tickPlayer_py[of now sd p] obtain b where
    py: "py (tickPlayer now sd p)
        = py p + cos (angle (steer_stage (speed_stage b (idle_stage now p))))
                 * speed (speed_stage b (idle_stage now p)) * DT" ..
  have idle: "idle_stage now p = p"
    using assms by (simp add: idle_stage_def)
  define f where "f = (if b then phys_baseFriction else phys_offroadFriction) powr DT"
  have f: "0 < f"
    unfolding f_def by (rule friction_positive)
  have "0 < speed p + throttle p * phys_accel * DT"
    using assms by (simp add: phys_accel_def DT_def TICK_HZ_def add_nonneg_pos)
  then have pos: "0 < (speed p + throttle p * phys_accel * DT) * f"
    using f by simp
  then have sp: "0 < speed (speed_stage b p)"
    using assms by (simp add: speed_stage_def Let_def f_def[symmetric] phys_maxSpeed_def)
  have an: "angle (steer_stage (speed_stage b p)) = 0"
    using assms by (simp add: steer_stage_def speed_stage_def Let_def)
  show ?thesis
    using sp by (simp add: py idle an DT_def TICK_HZ_def)
qed

lemma reverse_moves:
  assumes "throttle p = 0" "brake p > 0" "steer p = 0" "angle p = 0" "speed p \<le> 0"
    and "now - lastHeard p \<le> 10000"
  shows "py (tickPlayer now sd p) < py p"
proof -
  from tickPlayer_py[of now sd p] obtain b where
    py: "py (tickPlayer now sd p)
        = py p + cos (angle (steer_stage (speed_stage b (idle_stage now p))))
                 * speed (speed_stage b (idle_stage now p)) * DT" ..
  have idle: "idle_stage now p = p"
    using assms by (simp add: idle_stage_def)
  define f where "f = (if b then phys_baseFriction else phys_offroadFriction) powr DT"
  have f: "0 < f"
    unfolding f_def by (rule friction_positive)
  have "speed p - brake p * phys_brake * DT < 0"
    using assms by (simp add: phys_brake_def DT_def TICK_HZ_def)
  then have neg: "(speed p - brake p * phys_brake * DT) * f < 0"
    using f by (simp add: mult_neg_pos)
  then have sp: "speed (speed_stage b p) < 0"
    using assms by (simp add: speed_stage_def Let_def f_def[symmetric] phys_maxSpeed_def)
  have an: "angle (steer_stage (speed_stage b p)) = 0"
    using assms by (simp add: steer_stage_def speed_stage_def Let_def)
  show ?thesis
    using sp by (simp add: py idle an DT_def TICK_HZ_def)
qed

lemma parked_stays:
  assumes "throttle p = 0" "brake p = 0" "steer p = 0" "\<not> refuel p" "speed p = 0"
    and "now - lastHeard p \<le> 10000"
  shows "tickPlayer now sd p = p"
proof -
  have 1: "idle_stage now p = p"
    using assms by (simp add: idle_stage_def)
  have 2: "speed_stage b p = p" for b
    using assms by (simp add: speed_stage_def Let_def phys_maxSpeed_def)
  have 3: "steer_stage p = p"
    using assms by (simp add: steer_stage_def Let_def)
  have 4: "move_stage p = p"
    using assms by (simp add: move_stage_def Let_def)
  have 5: "burn_stage b p = p" for b
    using assms by (simp add: burn_stage_def)
  have 6: "refuel_stage sd p = p"
    using assms by (simp add: refuel_stage_def)
  have 7: "exhaust_stage p = p"
    using assms by (simp add: exhaust_stage_def)
  show ?thesis
    by (simp add: tickPlayer_def Let_def 1 2 3 4 5 6 7)
qed

lemma tickRoom_player:
  "obj_get k (players (fst (tickRoom now r))) = map_option (tickPlayer now (seed r)) (obj_get k (players r))"
  by (simp add: tickRoom_def Let_def obj_get_map_values)

lemma phase_tickRoom: "phase (fst (tickRoom now r)) = phase r"
  by (simp add: tickRoom_def Let_def)

section \<open>Facts about the example states\<close>

lemma code_norm: "trim (toUpperCase '' abcdef '') = ''ABCDEF''"
  by code_simp

lemma code_norm_upper: "trim (toUpperCase ''ABCDEF'') = ''ABCDEF''"
  by code_simp

lemma code_norm_unknown: "trim (toUpperCase ''zzzzzz'') = ''ZZZZZZ''"
  by code_simp

lemma demo_lobby_reached: "run demo_events init = Some demo_lobby"
  by (simp add: demo_events_def init_def createRoom_handler_def createRoom_def
      joinRoom_handler_def code_norm str_or_def driver_name_def obj_keys_def
      demo_lobby_def demo_room_def demo_host_def demo_guest_def Let_def)

lemma demo_running_reached: "run (demo_events @ [(2, StartGame ''h'')]) init = Some demo_running"
  by (simp add: demo_events_def init_def createRoom_handler_def createRoom_def
      joinRoom_handler_def code_norm str_or_def driver_name_def obj_keys_def
      startGame_handler_def my_player_def my_room_def makePlayer_def
      demo_running_def demo_lobby_def demo_room_def demo_host_def demo_guest_def Let_def)

lemma my_player_demo_guest: "my_player ''g'' demo_lobby = Some (''ABCDEF'', demo_room, demo_guest)"
  by (simp add: my_player_def my_room_def demo_lobby_def demo_room_def)

lemma my_player_demo_host: "my_player ''h'' demo_lobby = Some (''ABCDEF'', demo_room, demo_host)"
  by (simp add: my_player_def my_room_def demo_lobby_def demo_room_def)

lemma demo_host_tick: "tickPlayer 3 0 demo_host = demo_host"
  by (rule parked_stays) (simp_all add: demo_host_def makePlayer_def)

lemma demo_guest_tick: "tickPlayer 3 0 demo_guest = demo_guest"
  by (rule parked_stays) (simp_all add: demo_guest_def makePlayer_def)

lemma demo_interval: "fst (interval 3 demo_running) = demo_running"
  by (simp add: interval_def tick_one_def tickRoom_def destroyEmptyStaleRooms_def sweep_one_def
      obj_keys_def demo_running_def demo_lobby_def demo_room_def Let_def demo_host_tick demo_guest_tick)

lemma demo_ticked: "run [(3, Interval)] demo_running = Some demo_running"
  using demo_interval by (simp split: prod.splits) (metis fst_conv)

lemma demo_game_reached:
  "run (demo_events @ [(2, StartGame ''h''), (3, Interval)]) init = Some demo_running"
  using demo_running_reached demo_ticked
  by (simp add: run_append[of "demo_events @ [(2, StartGame ''h'')]" "[(3, Interval)]", simplified])

lemma demo_player_at: "player_at ''ABCDEF'' ''h'' demo_running = Some demo_host"
  by (simp add: player_at_def demo_running_def demo_lobby_def demo_room_def)

section \<open>Departure of the host\<close>

text \<open>
  What the two handlers do in general when a player leaves others behind: the disconnect
  handler sets the host flag of the first remaining player when the leaver had it; the
  \<^verbatim>\<open>leaveRoom\<close> handler leaves the remaining players as they are.
\<close>

lemma disconnect_hands_over:
  assumes "my_room sid s = Some (c, r)" and "obj_get sid (players r) = Some p" and "isHost p"
    and "obj_delete sid (players r) = (k, q) # rest"
  shows "obj_get c (rooms (fst (disconnect_handler sid now s)))
         = Some (r\<lparr>players := (k, q\<lparr>isHost := True\<rparr>) # rest\<rparr>)"
  using assms by (simp add: disconnect_handler_def Let_def obj_keys_def obj_get_set)

lemma leaveRoom_keeps_flags:
  assumes "my_room sid s = Some (c, r)" and "obj_delete sid (players r) = (k, q) # rest"
  shows "obj_get c (rooms (fst (leaveRoom_handler sid now s)))
         = Some (r\<lparr>players := (k, q) # rest\<rparr>)"
  using assms by (simp add: leaveRoom_handler_def Let_def obj_keys_def obj_get_set)

text \<open>
  Claim C1, evaluated where it fails. In the example lobby the host \<open>h\<close> leaves.
  After \<^verbatim>\<open>leaveRoom\<close> the room holds the guest alone, with the host flag still false:
  the room has no host. After \<^verbatim>\<open>disconnect\<close> in the same state the guest has the host
  flag. The two paths differ: only the disconnect handler hands the host flag over.
\<close>

theorem leaveRoom_leaves_no_host:
  "my_player ''h'' demo_lobby = Some (''ABCDEF'', demo_room, demo_host) \<and> isHost demo_host
   \<and> \<not> isHost demo_guest
   \<and> fst (leaveRoom_handler ''h'' 2 demo_lobby)
       = demo_lobby\<lparr>rooms := [(''ABCDEF'', demo_room\<lparr>players := [(''g'', demo_guest)]\<rparr>)],
                     joinedCode := (joinedCode demo_lobby)(''h'' := None)\<rparr>
   \<and> fst (disconnect_handler ''h'' 2 demo_lobby)
       = demo_lobby\<lparr>rooms := [(''ABCDEF'',
                        demo_room\<lparr>players := [(''g'', demo_guest\<lparr>isHost := True\<rparr>)]\<rparr>)]\<rparr>"
  by (simp add: my_player_def leaveRoom_handler_def disconnect_handler_def my_room_def
      Let_def demo_lobby_def demo_room_def demo_host_def demo_guest_def makePlayer_def obj_keys_def)

section \<open>Bounds on fuel and speed\<close>

lemma players_ok_set: "players_ok ps \<Longrightarrow> bounded p \<Longrightarrow> players_ok (obj_set k p ps)"
  using set_obj_set[of k p ps] by (auto simp: players_ok_def)

lemma players_ok_delete: "players_ok ps \<Longrightarrow> players_ok (obj_delete k ps)"
  using set_obj_delete[of k ps] by (auto simp: players_ok_def)

lemma players_ok_get: "players_ok ps \<Longrightarrow> obj_get k ps = Some p \<Longrightarrow> bounded p"
  using obj_get_in_set[of k ps p] by (fastforce simp: players_ok_def)

lemma players_ok_promote: "players_ok ps \<Longrightarrow> players_ok (promote_first ps)"
  by (cases ps) (auto simp: players_ok_def bounded_def fuel_ok_def speed_ok_def)

lemma players_ok_tick:
  "players_ok ps \<Longrightarrow> players_ok (map (\<lambda>(k, p). (k, tickPlayer now sd p)) ps)"
  by (auto simp: players_ok_def bounded_def tickPlayer_ok)

lemma rooms_ok_set: "rooms_ok rs \<Longrightarrow> players_ok (players r) \<Longrightarrow> rooms_ok (obj_set c r rs)"
  using set_obj_set[of c r rs] by (auto simp: rooms_ok_def)

lemma rooms_ok_delete: "rooms_ok rs \<Longrightarrow> rooms_ok (obj_delete c rs)"
  using set_obj_delete[of c rs] by (auto simp: rooms_ok_def)

lemma rooms_ok_get: "rooms_ok rs \<Longrightarrow> obj_get c rs = Some r \<Longrightarrow> players_ok (players r)"
  using obj_get_in_set[of c rs r] by (fastforce simp: rooms_ok_def)

lemma bounded_makePlayer: "bounded (makePlayer i n c now)"
  by (simp add: bounded_def fuel_ok_def speed_ok_def makePlayer_def)

lemma bounded_frame:
  "bounded p \<Longrightarrow> fuel q = fuel p \<Longrightarrow> maxFuel q = maxFuel p \<Longrightarrow> speed q = speed p \<Longrightarrow> bounded q"
  by (simp add: bounded_def fuel_ok_def speed_ok_def)

lemma tick_one_ok: "rooms_ok (fst acc) \<Longrightarrow> rooms_ok (fst (tick_one now k acc))"
  by (auto simp: tick_one_def tickRoom_def Let_def split: option.splits
      intro!: rooms_ok_set players_ok_tick dest: rooms_ok_get)

lemma fold_tick_one_ok: "rooms_ok (fst acc) \<Longrightarrow> rooms_ok (fst (fold (tick_one now) ks acc))"
  by (induction ks arbitrary: acc) (simp_all add: tick_one_ok)

lemma sweep_one_ok: "rooms_ok rs \<Longrightarrow> rooms_ok (sweep_one t k rs)"
  by (auto simp: sweep_one_def rooms_ok_delete split: option.splits)

lemma fold_sweep_one_ok: "rooms_ok rs \<Longrightarrow> rooms_ok (fold (sweep_one t) ks rs)"
  by (induction ks arbitrary: rs) (simp_all add: sweep_one_ok)

lemma interval_ok: "rooms_ok (rooms s) \<Longrightarrow> rooms_ok (rooms (fst (interval now s)))"
  by (simp add: interval_def Let_def destroyEmptyStaleRooms_def fold_sweep_one_ok fold_tick_one_ok)

lemma createRoom_handler_ok:
  assumes "rooms_ok (rooms s)"
    and "createRoom_handler sid name color cands u now s = Some (s', outs)"
  shows "rooms_ok (rooms s')"
proof -
  from assms(2) obtain r0 rs where cr: "createRoom cands u now (rooms s) = Some (r0, rs)"
    and s': "rooms s' = obj_set (code r0) (r0\<lparr>players := obj_set sid
               ((makePlayer sid (driver_name name) (str_or color ''#5ec8f8'') now)\<lparr>isHost := True\<rparr>)
               (players r0)\<rparr>) rs"
    by (auto simp: createRoom_handler_def Let_def split: option.splits prod.splits)
  from cr have r0: "players r0 = []" and rs: "rs = obj_set (code r0) r0 (rooms s)"
    by (auto simp: createRoom_def Let_def split: option.splits)
  have "bounded ((makePlayer sid (driver_name name) (str_or color ''#5ec8f8'') now)\<lparr>isHost := True\<rparr>)"
    by (rule bounded_frame[OF bounded_makePlayer]) simp_all
  then show ?thesis
    using assms(1) unfolding s' rs
    by (intro rooms_ok_set) (simp_all add: r0 players_ok_def)
qed

lemma joinRoom_handler_ok:
  "rooms_ok (rooms s) \<Longrightarrow> rooms_ok (rooms (fst (joinRoom_handler sid code0 name color now s)))"
  by (auto simp: joinRoom_handler_def Let_def split: option.splits
      intro!: rooms_ok_set players_ok_set bounded_makePlayer dest: rooms_ok_get)

lemma setReady_handler_ok:
  "rooms_ok (rooms s) \<Longrightarrow> rooms_ok (rooms (fst (setReady_handler sid v s)))"
proof (cases "my_player sid s")
  case None
  assume "rooms_ok (rooms s)"
  with None show ?thesis by (simp add: setReady_handler_def)
next
  case (Some a)
  assume ok: "rooms_ok (rooms s)"
  obtain c r p where a: "a = (c, r, p)" by (cases a)
  note D = my_player_D[OF Some[unfolded a]]
  from ok D have ps: "players_ok (players r)" by (auto dest: rooms_ok_get)
  with D have "bounded p" by (auto dest: players_ok_get)
  then have "bounded (p\<lparr>ready := ToBoolean v\<rparr>)"
    by (rule bounded_frame) simp_all
  with ok ps show ?thesis
    by (simp add: setReady_handler_def Some a Let_def rooms_ok_set players_ok_set)
qed

lemma startGame_handler_ok:
  "rooms_ok (rooms s) \<Longrightarrow> rooms_ok (rooms (fst (startGame_handler sid s)))"
  by (auto simp: startGame_handler_def Let_def split: option.splits dest!: my_player_D
      intro!: rooms_ok_set dest: rooms_ok_get)

lemma input_handler_ok:
  "rooms_ok (rooms s) \<Longrightarrow> rooms_ok (rooms (fst (input_handler sid data now s)))"
proof (cases "my_player sid s")
  case None
  assume "rooms_ok (rooms s)"
  with None show ?thesis by (simp add: input_handler_def)
next
  case (Some a)
  assume ok: "rooms_ok (rooms s)"
  obtain c r p where a: "a = (c, r, p)" by (cases a)
  note D = my_player_D[OF Some[unfolded a]]
  from ok D have ps: "players_ok (players r)" by (auto dest: rooms_ok_get)
  with D have "bounded p" by (auto dest: players_ok_get)
  then have "bounded (p\<lparr>throttle := num_val (clamp_field 0 1 (i_throttle data)),
                      brake := num_val (clamp_field 0 1 (i_brake data)),
                      steer := num_val (clamp_field (- 1) 1 (i_steer data)),
                      refuel := ToBoolean (i_refuel data),
                      lastHeard := now\<rparr>)"
    by (rule bounded_frame) simp_all
  with ok ps show ?thesis
    by (simp add: input_handler_def Some a Let_def rooms_ok_set players_ok_set)
qed

lemma leaveRoom_handler_ok:
  "rooms_ok (rooms s) \<Longrightarrow> rooms_ok (rooms (fst (leaveRoom_handler sid now s)))"
  by (auto simp: leaveRoom_handler_def Let_def split: option.splits dest!: my_room_D
      intro!: rooms_ok_set players_ok_delete dest: rooms_ok_get)

lemma disconnect_handler_ok:
  "rooms_ok (rooms s) \<Longrightarrow> rooms_ok (rooms (fst (disconnect_handler sid now s)))"
  by (auto simp: disconnect_handler_def Let_def split: option.splits dest!: my_room_D
      intro!: rooms_ok_set players_ok_delete players_ok_promote dest: rooms_ok_get)

lemma step_ok: "rooms_ok (rooms s) \<Longrightarrow> step now e s = Some (s', outs) \<Longrightarrow> rooms_ok (rooms s')"
proof (cases e)
  case (CreateRoom sid name color cands u)
  assume "rooms_ok (rooms s)" "step now e s = Some (s', outs)"
  with CreateRoom show ?thesis by (auto intro: createRoom_handler_ok)
next
  case (JoinRoom sid code0 name color)
  assume "rooms_ok (rooms s)" "step now e s = Some (s', outs)"
  with JoinRoom joinRoom_handler_ok[of s sid code0 name color now] show ?thesis by auto
next
  case (SetReady sid v)
  assume "rooms_ok (rooms s)" "step now e s = Some (s', outs)"
  with SetReady setReady_handler_ok[of s sid v] show ?thesis by auto
next
  case (StartGame sid)
  assume "rooms_ok (rooms s)" "step now e s = Some (s', outs)"
  with StartGame startGame_handler_ok[of s sid] show ?thesis by auto
next
  case (Input sid data)
  assume "rooms_ok (rooms s)" "step now e s = Some (s', outs)"
  with Input input_handler_ok[of s sid data now] show ?thesis by auto
next
  case (LeaveRoom sid)
  assume "rooms_ok (rooms s)" "step now e s = Some (s', outs)"
  with LeaveRoom leaveRoom_handler_ok[of s sid now] show ?thesis by auto
next
  case (Disconnect sid)
  assume "rooms_ok (rooms s)" "step now e s = Some (s', outs)"
  with Disconnect disconnect_handler_ok[of s sid now] show ?thesis by auto
next
  case (PingCheck sid d)
  assume "rooms_ok (rooms s)" "step now e s = Some (s', outs)"
  with PingCheck show ?thesis by (auto simp: pingCheck_handler_def)
next
  case Interval
  assume "rooms_ok (rooms s)" "step now e s = Some (s', outs)"
  with Interval interval_ok[of s now] show ?thesis by auto
qed

lemma run_ok: "rooms_ok (rooms s) \<Longrightarrow> run es s = Some s' \<Longrightarrow> rooms_ok (rooms s')"
proof (induction es arbitrary: s)
  case Nil
  then show ?case by simp
next
  case (Cons a es)
  obtain now e where a: "a = (now, e)" by (cases a)
  from Cons.prems(2) obtain s1 outs where st: "step now e s = Some (s1, outs)"
    and rest: "run es s1 = Some s'"
    by (auto simp: a split: option.splits)
  from step_ok[OF Cons.prems(1) st] have "rooms_ok (rooms s1)" .
  from Cons.IH[OF this rest] show ?case .
qed

text \<open>
  Claim C2. From the start of the server, after any sequence of events (rooms created,
  joined and left, games started, input messages with any fields, and any number of
  ticks), every player of every room has \<open>0 \<le> fuel \<le> maxFuel\<close> and
  \<open>-10 \<le> speed \<le> 45\<close>. Every state between two events is the end of a shorter
  sequence, so the bounds hold after each step.
\<close>

theorem fuel_and_speed_bounded:
  assumes "run es init = Some s" and "player_at c k s = Some p"
  shows "0 \<le> fuel p \<and> fuel p \<le> maxFuel p \<and> - 10 \<le> speed p \<and> speed p \<le> 45"
proof -
  have "rooms_ok (rooms init)"
    by (simp add: init_def rooms_ok_def)
  from run_ok[OF this assms(1)] have ok: "rooms_ok (rooms s)" .
  from assms(2) obtain r where "obj_get c (rooms s) = Some r" "obj_get k (players r) = Some p"
    by (auto simp: player_at_def split: option.splits)
  from players_ok_get[OF rooms_ok_get[OF ok this(1)] this(2)]
  show ?thesis
    by (simp add: bounded_def fuel_ok_def speed_ok_def)
qed

text \<open>
  The theorem on the example: a room is created, joined and started, and ticked once;
  the host's car has fuel 100 of 100 and speed 0.
\<close>

theorem fuel_and_speed_bounded_witness:
  "run (demo_events @ [(2, StartGame ''h''), (3, Interval)]) init = Some demo_running
   \<and> player_at ''ABCDEF'' ''h'' demo_running = Some demo_host
   \<and> 0 \<le> fuel demo_host \<and> fuel demo_host \<le> maxFuel demo_host
   \<and> - 10 \<le> speed demo_host \<and> speed demo_host \<le> 45"
  using fuel_and_speed_bounded[OF demo_game_reached demo_player_at]
    demo_game_reached demo_player_at by blast

section \<open>The phase of a room\<close>

lemma present_running_iff:
  "present_running c rs = (\<exists>r. obj_get c rs = Some r \<and> phase r = Running)"
  by (simp add: present_running_def split: option.splits)

lemma present_running_set:
  "present_running c (obj_set k r rs) = (if c = k then phase r = Running else present_running c rs)"
  by (simp add: present_running_def obj_get_set)

lemma running_or_gone_set:
  "running_or_gone c (obj_set k r rs) = (if c = k then phase r = Running else running_or_gone c rs)"
  by (simp add: running_or_gone_def obj_get_set)

lemma running_or_gone_delete: "running_or_gone c rs \<Longrightarrow> running_or_gone c (obj_delete k rs)"
  by (simp add: running_or_gone_def obj_get_delete)

lemma present_imp_rog: "present_running c rs \<Longrightarrow> running_or_gone c rs"
  by (simp add: present_running_def running_or_gone_def split: option.splits)

lemma tick_one_rog: "running_or_gone c (fst acc) \<Longrightarrow> running_or_gone c (fst (tick_one now k acc))"
  by (auto simp: tick_one_def running_or_gone_set phase_tickRoom split: option.splits)

lemma fold_tick_one_rog:
  "running_or_gone c (fst acc) \<Longrightarrow> running_or_gone c (fst (fold (tick_one now) ks acc))"
  by (induction ks arbitrary: acc) (simp_all add: tick_one_rog)

lemma sweep_one_rog: "running_or_gone c rs \<Longrightarrow> running_or_gone c (sweep_one t k rs)"
  by (auto simp: sweep_one_def running_or_gone_delete split: option.splits)

lemma fold_sweep_one_rog:
  "running_or_gone c rs \<Longrightarrow> running_or_gone c (fold (sweep_one t) ks rs)"
  by (induction ks arbitrary: rs) (simp_all add: sweep_one_rog)

lemma interval_rog:
  "running_or_gone c (rooms s) \<Longrightarrow> running_or_gone c (rooms (fst (interval now s)))"
  by (simp add: interval_def Let_def destroyEmptyStaleRooms_def fold_sweep_one_rog fold_tick_one_rog)

lemma createRoom_handler_pr:
  assumes "present_running c (rooms s)"
    and "createRoom_handler sid name color cands u now s = Some (s', outs)"
  shows "present_running c (rooms s')"
proof -
  from assms(2) obtain r0 rs where cr: "createRoom cands u now (rooms s) = Some (r0, rs)"
    and s': "rooms s' = obj_set (code r0) (r0\<lparr>players := obj_set sid
               ((makePlayer sid (driver_name name) (str_or color ''#5ec8f8'') now)\<lparr>isHost := True\<rparr>)
               (players r0)\<rparr>) rs"
    by (auto simp: createRoom_handler_def Let_def split: option.splits prod.splits)
  from createRoom_fresh[OF cr] have fresh: "obj_get (code r0) (rooms s) = None"
    and rs: "rs = obj_set (code r0) r0 (rooms s)" by auto
  from assms(1) fresh have "c \<noteq> code r0"
    by (auto simp: present_running_def)
  then show ?thesis
    using assms(1) by (simp add: s' rs present_running_set)
qed

lemma joinRoom_handler_pr:
  "present_running c (rooms s) \<Longrightarrow> present_running c (rooms (fst (joinRoom_handler sid code0 name color now s)))"
  by (auto simp: joinRoom_handler_def Let_def present_running_iff obj_get_set
      split: option.splits)

lemma setReady_handler_pr:
  "present_running c (rooms s) \<Longrightarrow> present_running c (rooms (fst (setReady_handler sid v s)))"
  by (auto simp: setReady_handler_def Let_def present_running_iff obj_get_set
      dest!: my_player_D split: option.splits)

lemma startGame_handler_pr:
  "present_running c (rooms s) \<Longrightarrow> present_running c (rooms (fst (startGame_handler sid s)))"
  by (auto simp: startGame_handler_def Let_def present_running_iff obj_get_set
      dest!: my_player_D split: option.splits)

lemma input_handler_pr:
  "present_running c (rooms s) \<Longrightarrow> present_running c (rooms (fst (input_handler sid data now s)))"
  by (auto simp: input_handler_def Let_def present_running_iff obj_get_set
      dest!: my_player_D split: option.splits)

lemma leaveRoom_handler_pr:
  "present_running c (rooms s) \<Longrightarrow> present_running c (rooms (fst (leaveRoom_handler sid now s)))"
  by (auto simp: leaveRoom_handler_def Let_def present_running_iff obj_get_set
      dest!: my_room_D split: option.splits)

lemma disconnect_handler_pr:
  "present_running c (rooms s) \<Longrightarrow> present_running c (rooms (fst (disconnect_handler sid now s)))"
  by (auto simp: disconnect_handler_def Let_def present_running_iff obj_get_set
      dest!: my_room_D split: option.splits)

text \<open>
  Claim C3. No operation takes a running room back to the lobby. Whenever the room with
  code \<open>c\<close> is running and any event is handled (a message of any socket, a
  disconnection, or the timer with its ticks and its sweep), afterwards the room is
  running, or it is gone, and it can be gone only through the timer, whose sweep deletes
  rooms. So a room that a player leaves, the host included, is still there and running.
\<close>

theorem phase_never_reverts:
  assumes "obj_get c (rooms s) = Some r" and "phase r = Running"
    and "step now e s = Some (s', outs)"
  shows "(case obj_get c (rooms s') of None \<Rightarrow> e = Interval | Some r' \<Rightarrow> phase r' = Running)"
proof -
  from assms(1,2) have pr: "present_running c (rooms s)"
    by (simp add: present_running_def)
  have "present_running c (rooms s')" if "e \<noteq> Interval"
  proof (cases e)
    case (CreateRoom sid name color cands u)
    with assms(3) pr show ?thesis by (auto intro: createRoom_handler_pr)
  next
    case (JoinRoom sid code0 name color)
    with assms(3) joinRoom_handler_pr[OF pr, of sid code0 name color now] show ?thesis by auto
  next
    case (SetReady sid v)
    with assms(3) setReady_handler_pr[OF pr, of sid v] show ?thesis by auto
  next
    case (StartGame sid)
    with assms(3) startGame_handler_pr[OF pr, of sid] show ?thesis by auto
  next
    case (Input sid data)
    with assms(3) input_handler_pr[OF pr, of sid data now] show ?thesis by auto
  next
    case (LeaveRoom sid)
    with assms(3) leaveRoom_handler_pr[OF pr, of sid now] show ?thesis by auto
  next
    case (Disconnect sid)
    with assms(3) disconnect_handler_pr[OF pr, of sid now] show ?thesis by auto
  next
    case (PingCheck sid d)
    with assms(3) pr show ?thesis by (auto simp: pingCheck_handler_def)
  next
    case Interval
    with that show ?thesis by simp
  qed
  moreover have "running_or_gone c (rooms s')" if "e = Interval"
    using that assms(3) interval_rog[OF present_imp_rog[OF pr], of now] by auto
  ultimately show ?thesis
    by (cases "e = Interval") (auto simp: present_running_def running_or_gone_def split: option.splits)
qed

text \<open>The theorem when the host disconnects from the running example room.\<close>

theorem phase_never_reverts_witness:
  "obj_get ''ABCDEF'' (rooms demo_running) = Some (demo_room\<lparr>phase := Running\<rparr>)
   \<and> phase (demo_room\<lparr>phase := Running\<rparr>) = Running
   \<and> isHost demo_host
   \<and> (\<exists>r'. obj_get ''ABCDEF'' (rooms (fst (disconnect_handler ''h'' 9 demo_running))) = Some r'
          \<and> phase r' = Running)"
proof -
  have room: "obj_get ''ABCDEF'' (rooms demo_running) = Some (demo_room\<lparr>phase := Running\<rparr>)"
    by (simp add: demo_running_def)
  have running: "phase (demo_room\<lparr>phase := Running\<rparr>) = Running"
    by simp
  have host: "isHost demo_host"
    by (simp add: demo_host_def)
  have st: "step 9 (Disconnect ''h'') demo_running
            = Some (fst (disconnect_handler ''h'' 9 demo_running),
                    snd (disconnect_handler ''h'' 9 demo_running))"
    by simp
  from phase_never_reverts[OF room running st]
  have "\<exists>r'. obj_get ''ABCDEF'' (rooms (fst (disconnect_handler ''h'' 9 demo_running))) = Some r'
          \<and> phase r' = Running"
    by (auto split: option.splits)
  with room running host show ?thesis
    by blast
qed

section \<open>Joining a room\<close>

text \<open>
  Claim C4. \<^verbatim>\<open>joinRoom\<close> looks the trimmed, upper-cased code up and tests in this
  order: an unknown code gives "Room not found."; a room whose phase is not lobby gives
  "Game already started."; a lobby room with 12 or more players gives "Room full.". In
  these three cases the state is returned as it was, so no player record is created or
  changed anywhere, and the one message goes to the requesting socket alone. Otherwise
  the room gets a fresh player under the requester's socket id, with the host flag
  false; the other players of the room stay; the requester receives \<^verbatim>\<open>joined\<close> with
  the room's snapshot and the room receives \<^verbatim>\<open>lobby\<close> with the same snapshot.
\<close>

theorem joinRoom_outcomes:
  "let c = trim (toUpperCase (str_or code0 []));
       res = joinRoom_handler sid code0 name color now s
   in (obj_get c (rooms s) = None \<longrightarrow> res = (s, [ToSocket sid (ErrorMsg ''Room not found.'')]))
    \<and> (\<forall>r. obj_get c (rooms s) = Some r \<and> phase r \<noteq> Lobby \<longrightarrow>
          res = (s, [ToSocket sid (ErrorMsg ''Game already started.'')]))
    \<and> (\<forall>r. obj_get c (rooms s) = Some r \<and> phase r = Lobby \<and> 12 \<le> length (obj_keys (players r)) \<longrightarrow>
          res = (s, [ToSocket sid (ErrorMsg ''Room full.'')]))
    \<and> (\<forall>r. obj_get c (rooms s) = Some r \<and> phase r = Lobby \<and> length (obj_keys (players r)) < 12 \<longrightarrow>
          (\<exists>r' p. res = (s\<lparr>rooms := obj_set c r' (rooms s), joinedCode := (joinedCode s)(sid \<mapsto> c)\<rparr>,
                          [ToSocket sid (Joined (snapshotRoom r') sid), ToRoom c (LobbyMsg (snapshotRoom r'))])
             \<and> r' = r\<lparr>players := obj_set sid p (players r)\<rparr>
             \<and> p = makePlayer sid (driver_name name) (str_or color ''#f6a93b'') now
             \<and> \<not> isHost p
             \<and> my_player sid (fst res) = Some (c, r', p)
             \<and> (\<forall>k. k \<noteq> sid \<longrightarrow> obj_get k (players r') = obj_get k (players r))))"
  by (auto simp: Let_def joinRoom_handler_def my_player_def my_room_def obj_get_set makePlayer_def)

text \<open>
  The theorem on the example states: an unknown code, the running room, the room with
  twelve players, and a third player joining the lobby.
\<close>

theorem joinRoom_outcomes_witness:
  "joinRoom_handler ''x'' (Some ''zzzzzz'') None None 5 demo_lobby
     = (demo_lobby, [ToSocket ''x'' (ErrorMsg ''Room not found.'')])
   \<and> joinRoom_handler ''x'' (Some ''ABCDEF'') None None 5 demo_running
     = (demo_running, [ToSocket ''x'' (ErrorMsg ''Game already started.'')])
   \<and> joinRoom_handler ''x'' (Some ''ABCDEF'') None None 5 demo_full
     = (demo_full, [ToSocket ''x'' (ErrorMsg ''Room full.'')])
   \<and> (\<exists>r'. my_player ''x'' (fst (joinRoom_handler ''x'' (Some ''ABCDEF'') None None 5 demo_lobby))
         = Some (''ABCDEF'', r', makePlayer ''x'' ''Driver'' ''#f6a93b'' 5))"
proof -
  have 1: "joinRoom_handler ''x'' (Some ''zzzzzz'') None None 5 demo_lobby
     = (demo_lobby, [ToSocket ''x'' (ErrorMsg ''Room not found.'')])"
    using joinRoom_outcomes[of "Some ''zzzzzz''" "''x''" None None 5 demo_lobby]
    by (simp add: Let_def str_or_def code_norm_unknown demo_lobby_def)
  have 2: "joinRoom_handler ''x'' (Some ''ABCDEF'') None None 5 demo_running
     = (demo_running, [ToSocket ''x'' (ErrorMsg ''Game already started.'')])"
    using joinRoom_outcomes[of "Some ''ABCDEF''" "''x''" None None 5 demo_running]
    by (simp add: Let_def str_or_def code_norm_upper demo_running_def)
  have 3: "joinRoom_handler ''x'' (Some ''ABCDEF'') None None 5 demo_full
     = (demo_full, [ToSocket ''x'' (ErrorMsg ''Room full.'')])"
    using joinRoom_outcomes[of "Some ''ABCDEF''" "''x''" None None 5 demo_full]
    by (simp add: Let_def str_or_def code_norm_upper demo_full_def demo_room_def obj_keys_def)
  have pre: "obj_get ''ABCDEF'' (rooms demo_lobby) = Some demo_room \<and> phase demo_room = Lobby
      \<and> length (obj_keys (players demo_room)) < 12"
    by (simp add: demo_lobby_def demo_room_def obj_keys_def)
  have 4: "\<exists>r'. my_player ''x'' (fst (joinRoom_handler ''x'' (Some ''ABCDEF'') None None 5 demo_lobby))
         = Some (''ABCDEF'', r', makePlayer ''x'' ''Driver'' ''#f6a93b'' 5)"
    using joinRoom_outcomes[of "Some ''ABCDEF''" "''x''" None None 5 demo_lobby] pre
    by (auto simp: Let_def str_or_def code_norm_upper driver_name_def)
  from 1 2 3 4 show ?thesis by blast
qed

section \<open>Points of interest\<close>

text \<open>
  Claim C6. For every seed and every y, \<open>poiForY\<close> works on the 800-metre segment
  \<open>k\<close> that contains \<open>y\<close>; its hash \<open>r\<close> is the noise at \<open>seed + 9999\<close> and
  \<open>k\<close>, a number of \<open>[0, 1)\<close>; the type follows the bands \<open>[0, 0.22)\<close> gas,
  \<open>[0.22, 0.38)\<close> hotel, \<open>[0.38, 0.54)\<close> store, \<open>[0.54, 0.68)\<close> town, otherwise
  none; the point lies at the middle of the segment, 17 metres from the road's centre
  line there, towards smaller \<open>x\<close> when \<open>r < 0.5\<close> and towards larger otherwise; the radius is 22
  for a town and 10 otherwise. The function is total: there is no error case.
\<close>

theorem poiForY_spec:
  "let P = poiForY sd y; k = \<lfloor>y / 800\<rfloor>; r = noise1 (sd + 9999) (of_int k) in
     poi_k P = of_int k \<and> 800 * of_int k \<le> y \<and> y < 800 * (of_int k + 1)
     \<and> r = rnd (sd + 9999) (of_int k) \<and> 0 \<le> r \<and> r < 1
     \<and> poi_type P = (if r < 0.22 then Gas else if r < 0.38 then Hotel
                      else if r < 0.54 then Store else if r < 0.68 then Town else NoPoi)
     \<and> poi_y P = (800 * of_int k + 800 * (of_int k + 1)) / 2
     \<and> poi_x P = roadCenterX sd (poi_y P) + (if r < 0.5 then - 17 else 17)
     \<and> poi_radius P = (if poi_type P = Town then 22 else 10)"
proof -
  define k where "k = \<lfloor>y / 800\<rfloor>"
  have "of_int k \<le> y / 800" and "y / 800 < of_int k + 1"
    unfolding k_def by linarith+
  then have seg: "800 * of_int k \<le> y \<and> y < 800 * (of_int k + 1)"
    by (simp add: field_simps)
  have r: "noise1 (sd + 9999) (of_int k) = rnd (sd + 9999) (of_int k)"
    by (rule noise1_lattice)
  show ?thesis
    using seg rnd_range[of "sd + 9999" "of_int k"]
    by (simp add: Let_def poiForY_def SEG_def r k_def[symmetric])
qed

text \<open>The theorem at seed \<open>-9999\<close> and \<open>y = 0\<close>: the hash is 0, a gas station.\<close>

theorem poiForY_spec_witness:
  "poi_k (poiForY (- 9999) 0) = 0 \<and> poi_type (poiForY (- 9999) 0) = Gas
   \<and> poi_y (poiForY (- 9999) 0) = 400 \<and> poi_radius (poiForY (- 9999) 0) = 10
   \<and> poi_x (poiForY (- 9999) 0) = roadCenterX (- 9999) 400 - 17"
  using poiForY_spec[of "- 9999" 0] by (simp add: Let_def rnd_def)

section \<open>The input handler\<close>

text \<open>
  Claim C7. An input message applied to an existing player is never rejected, whatever
  its four fields are: the handler emits nothing and stores a throttle and a brake of
  \<open>[0, 1]\<close> and a steering of \<open>[-1, 1]\<close>, each the finite result of
  \<^verbatim>\<open>Math.max(lo, Math.min(hi, +v || 0))\<close> (a finite number is clamped, a field
  that is missing or converts to NaN counts as 0), the refuel field coerced to a boolean, and the clock as
  the time of the last input; no other field of the player changes.
\<close>

theorem input_coerced:
  assumes "my_player sid s = Some (c, r, p)"
  shows "\<exists>r' t b st.
     snd (input_handler sid data now s) = []
     \<and> my_player sid (fst (input_handler sid data now s))
         = Some (c, r', p\<lparr>throttle := t, brake := b, steer := st,
                           refuel := ToBoolean (i_refuel data), lastHeard := now\<rparr>)
     \<and> clamp_field 0 1 (i_throttle data) = Fin t \<and> 0 \<le> t \<and> t \<le> 1
     \<and> clamp_field 0 1 (i_brake data) = Fin b \<and> 0 \<le> b \<and> b \<le> 1
     \<and> clamp_field (- 1) 1 (i_steer data) = Fin st \<and> - 1 \<le> st \<and> st \<le> 1
     \<and> (\<forall>x. i_throttle data = JNum (Fin x) \<longrightarrow> t = max 0 (min 1 x))
     \<and> (\<forall>x. i_brake data = JNum (Fin x) \<longrightarrow> b = max 0 (min 1 x))
     \<and> (\<forall>x. i_steer data = JNum (Fin x) \<longrightarrow> st = max (- 1) (min 1 x))
     \<and> (ToNumber (i_throttle data) = NaN \<longrightarrow> t = 0)
     \<and> (ToNumber (i_brake data) = NaN \<longrightarrow> b = 0)
     \<and> (ToNumber (i_steer data) = NaN \<longrightarrow> st = 0)"
proof -
  obtain t where t: "clamp_field 0 1 (i_throttle data) = Fin t" "0 \<le> t" "t \<le> 1"
    using clamp_finite[of 0 1 "i_throttle data"] by auto
  obtain b where b: "clamp_field 0 1 (i_brake data) = Fin b" "0 \<le> b" "b \<le> 1"
    using clamp_finite[of 0 1 "i_brake data"] by auto
  obtain st where st: "clamp_field (- 1) 1 (i_steer data) = Fin st" "- 1 \<le> st" "st \<le> 1"
    using clamp_finite[of "- 1" 1 "i_steer data"] by auto
  let ?p' = "p\<lparr>throttle := t, brake := b, steer := st,
               refuel := ToBoolean (i_refuel data), lastHeard := now\<rparr>"
  have h: "input_handler sid data now s
           = (s\<lparr>rooms := obj_set c (r\<lparr>players := obj_set sid ?p' (players r)\<rparr>) (rooms s)\<rparr>, [])"
    by (simp add: input_handler_def assms t b st)
  have tn: "\<forall>x. i_throttle data = JNum (Fin x) \<longrightarrow> t = max 0 (min 1 x)"
    using t(1) by (auto simp: clamp_number)
  have bn: "\<forall>x. i_brake data = JNum (Fin x) \<longrightarrow> b = max 0 (min 1 x)"
    using b(1) by (auto simp: clamp_number)
  have sn: "\<forall>x. i_steer data = JNum (Fin x) \<longrightarrow> st = max (- 1) (min 1 x)"
    using st(1) by (auto simp: clamp_number)
  have nan: "ToNumber (i_throttle data) = NaN \<longrightarrow> t = 0"
    "ToNumber (i_brake data) = NaN \<longrightarrow> b = 0" "ToNumber (i_steer data) = NaN \<longrightarrow> st = 0"
    using t(1) b(1) st(1) by (auto simp: clamp_nan)
  show ?thesis
    using t b st tn bn sn nan my_player_put[OF assms, of ?p'] unfolding h fst_conv snd_conv
    by blast
qed

text \<open>The theorem on the example input: throttle 7 becomes 1, the rest 0 and true.\<close>

theorem input_coerced_witness:
  "my_player ''g'' demo_lobby = Some (''ABCDEF'', demo_room, demo_guest)
   \<and> (\<exists>r'. my_player ''g'' (fst (input_handler ''g'' demo_input 7 demo_lobby))
         = Some (''ABCDEF'', r', demo_guest\<lparr>throttle := 1, brake := 0, steer := 0,
                                             refuel := True, lastHeard := 7\<rparr>))"
proof -
  from input_coerced[OF my_player_demo_guest, of demo_input 7]
  show ?thesis
    by (auto simp: my_player_demo_guest demo_input_def clamp_field_def js_or_def)
qed

section \<open>Distance\<close>

lemma keeps_up_iff:
  "keeps_up c k q rs
     = (\<exists>r q'. obj_get c rs = Some r \<and> obj_get k (players r) = Some q' \<and> distance q \<le> distance q')"
  by (simp add: keeps_up_def split: option.splits)

lemma tick_one_keeps_up:
  assumes "keeps_up c k q (fst acc)"
  shows "keeps_up c k q (fst (tick_one now c' acc))"
proof -
  from assms obtain r q' where r: "obj_get c (fst acc) = Some r"
    and q': "obj_get k (players r) = Some q'" and le: "distance q \<le> distance q'"
    by (auto simp: keeps_up_iff)
  show ?thesis
  proof (cases "c' = c \<and> phase r = Running")
    case True
    then have "fst (tick_one now c' acc) = obj_set c (fst (tickRoom now r)) (fst acc)"
      by (simp add: tick_one_def r)
    moreover have "distance q \<le> distance (tickPlayer now (seed r) q')"
      using le tickPlayer_distance_le[of q' now "seed r"] by simp
    ultimately show ?thesis
      by (simp add: keeps_up_iff obj_get_set tickRoom_player q')
  next
    case False
    then have "obj_get c (fst (tick_one now c' acc)) = Some r"
      using r by (auto simp: tick_one_def obj_get_set split: option.splits)
    with q' le show ?thesis
      by (simp add: keeps_up_iff)
  qed
qed

lemma fold_tick_one_keeps_up:
  "keeps_up c k q (fst acc) \<Longrightarrow> keeps_up c k q (fst (fold (tick_one now) ks acc))"
  by (induction ks arbitrary: acc) (simp_all add: tick_one_keeps_up)

lemma sweep_one_keeps_up:
  assumes "keeps_up c k q rs"
  shows "keeps_up c k q (sweep_one t c' rs)"
proof -
  from assms obtain r q' where r: "obj_get c rs = Some r"
    and q': "obj_get k (players r) = Some q'" and le: "distance q \<le> distance q'"
    by (auto simp: keeps_up_iff)
  from obj_keys_nonempty[OF q'] r have "obj_get c (sweep_one t c' rs) = Some r"
    by (auto simp: sweep_one_def obj_get_delete split: option.splits)
  with q' le show ?thesis
    by (simp add: keeps_up_iff)
qed

lemma fold_sweep_one_keeps_up:
  "keeps_up c k q rs \<Longrightarrow> keeps_up c k q (fold (sweep_one t) ks rs)"
  by (induction ks arbitrary: rs) (simp_all add: sweep_one_keeps_up)

lemma interval_keeps_up:
  "keeps_up c k q (rooms s) \<Longrightarrow> keeps_up c k q (rooms (fst (interval now s)))"
  by (simp add: interval_def Let_def destroyEmptyStaleRooms_def fold_sweep_one_keeps_up
      fold_tick_one_keeps_up)

lemma input_handler_keeps_up:
  assumes "keeps_up c k q (rooms s)"
  shows "keeps_up c k q (rooms (fst (input_handler sid data now s)))"
proof (cases "my_player sid s")
  case None
  with assms show ?thesis by (simp add: input_handler_def)
next
  case (Some a)
  obtain c0 r0 p0 where a: "a = (c0, r0, p0)" by (cases a)
  note D = my_player_D[OF Some[unfolded a]]
  from assms D show ?thesis
    by (auto simp: input_handler_def Some a Let_def keeps_up_iff obj_get_set)
qed

lemma step_keeps_up:
  "sim_event e \<Longrightarrow> step now e s = Some (s', outs) \<Longrightarrow> keeps_up c k q (rooms s)
     \<Longrightarrow> keeps_up c k q (rooms s')"
  using input_handler_keeps_up interval_keeps_up
  by (cases e) (auto, (metis fst_conv)+)

lemma run_keeps_up:
  "\<forall>te \<in> set es. sim_event (snd te) \<Longrightarrow> run es s = Some s' \<Longrightarrow> keeps_up c k q (rooms s)
     \<Longrightarrow> keeps_up c k q (rooms s')"
proof (induction es arbitrary: s)
  case Nil
  then show ?case by simp
next
  case (Cons a es)
  obtain now e where a: "a = (now, e)" by (cases a)
  from Cons.prems(2) obtain s1 outs where st: "step now e s = Some (s1, outs)"
    and rest: "run es s1 = Some s'"
    by (auto simp: a split: option.splits)
  from Cons.prems(1) have e: "sim_event e" and es: "\<forall>te \<in> set es. sim_event (snd te)"
    by (simp_all add: a)
  from Cons.IH[OF es rest step_keeps_up[OF e st Cons.prems(3)]] show ?case .
qed

text \<open>
  Claim C8. In one tick a player's distance grows by the displacement \<open>dy\<close> along
  the road, the change of \<open>y\<close>, when \<open>dy > 0\<close>, and stays as it is otherwise:
  driving backwards neither lowers nor raises it. Across any sequence of input messages
  and timer callbacks the player stays in its room and its distance never decreases.
\<close>

theorem distance_monotone:
  "(let p' = tickPlayer now sd p; dy = py p' - py p
    in distance p' = (if dy > 0 then distance p + dy else distance p))
   \<and> ((\<forall>te \<in> set es. sim_event (snd te)) \<longrightarrow> run es s = Some s' \<longrightarrow> player_at c k s = Some q
        \<longrightarrow> (\<exists>q'. player_at c k s' = Some q' \<and> distance q \<le> distance q'))"
proof -
  have one: "let p' = tickPlayer now sd p; dy = py p' - py p
             in distance p' = (if dy > 0 then distance p + dy else distance p)"
    using tickPlayer_distance[of now sd p] by (simp add: Let_def)
  have many: "\<exists>q'. player_at c k s' = Some q' \<and> distance q \<le> distance q'"
    if "\<forall>te \<in> set es. sim_event (snd te)" "run es s = Some s'" "player_at c k s = Some q"
  proof -
    from that(3) have "keeps_up c k q (rooms s)"
      by (auto simp: keeps_up_iff player_at_def split: option.splits)
    from run_keeps_up[OF that(1,2) this] show ?thesis
      by (auto simp: keeps_up_iff player_at_def)
  qed
  from one many show ?thesis by blast
qed

text \<open>
  The theorem on the running example room and one timer callback, where the host's car
  is parked, \<open>dy = 0\<close>, and the distance stays; on the host's car with full throttle,
  which moves forward and adds \<open>dy\<close> to its distance; and on the host's car with the
  brake held at rest, which moves backwards and keeps its distance.
\<close>

theorem distance_monotone_witness:
  "sim_event Interval
   \<and> run [(3, Interval)] demo_running = Some demo_running
   \<and> player_at ''ABCDEF'' ''h'' demo_running = Some demo_host
   \<and> (\<exists>q'. player_at ''ABCDEF'' ''h'' demo_running = Some q' \<and> distance demo_host \<le> distance q')
   \<and> distance (tickPlayer 3 0 demo_host) = distance demo_host
   \<and> py demo_forward < py (tickPlayer 3 0 demo_forward)
   \<and> distance (tickPlayer 3 0 demo_forward)
       = distance demo_forward + (py (tickPlayer 3 0 demo_forward) - py demo_forward)
   \<and> py (tickPlayer 3 0 demo_reverse) < py demo_reverse
   \<and> distance (tickPlayer 3 0 demo_reverse) = distance demo_reverse"
proof -
  have sim: "\<forall>te \<in> set [(3::int, Interval)]. sim_event (snd te)"
    by simp
  from distance_monotone[of 3 0 demo_host "[(3, Interval)]" demo_running demo_running
      "''ABCDEF''" "''h''" demo_host]
  have parked: "distance (tickPlayer 3 0 demo_host) = distance demo_host"
    and run: "\<exists>q'. player_at ''ABCDEF'' ''h'' demo_running = Some q' \<and> distance demo_host \<le> distance q'"
    using sim demo_ticked demo_player_at by (simp_all add: Let_def demo_host_tick)
  have fwd: "py demo_forward < py (tickPlayer 3 0 demo_forward)"
    by (rule forward_moves) (simp_all add: demo_forward_def demo_host_def makePlayer_def)
  from distance_monotone[of 3 0 demo_forward "[]" init init "[]" "[]" demo_host] fwd
  have fwd_d: "distance (tickPlayer 3 0 demo_forward)
       = distance demo_forward + (py (tickPlayer 3 0 demo_forward) - py demo_forward)"
    by (simp add: Let_def)
  have rev: "py (tickPlayer 3 0 demo_reverse) < py demo_reverse"
    by (rule reverse_moves) (simp_all add: demo_reverse_def demo_host_def makePlayer_def)
  from distance_monotone[of 3 0 demo_reverse "[]" init init "[]" "[]" demo_host] rev
  have rev_d: "distance (tickPlayer 3 0 demo_reverse) = distance demo_reverse"
    by (simp add: Let_def)
  from parked run fwd fwd_d rev rev_d demo_ticked demo_player_at show ?thesis
    by simp
qed

section \<open>Broadcasts after a departure\<close>

text \<open>
  Claim C9, evaluated where it fails. When the guest disconnects from the running
  example room, the \<^verbatim>\<open>state\<close> message sent to the room carries the host's player
  record itself, not a snapshot. The same disconnection after an input message of the
  host, which changes no field of the room's snapshot, sends a different payload: the
  payload is not a function of the snapshot.
\<close>

theorem disconnect_broadcasts_player_objects:
  "snd (disconnect_handler ''g'' 9 demo_running) = [ToRoom ''ABCDEF'' (StateRaw [demo_host])]
   \<and> (let s2 = fst (input_handler ''h'' demo_input 5 demo_running)
      in map_option snapshotRoom (obj_get ''ABCDEF'' (rooms s2))
           = map_option snapshotRoom (obj_get ''ABCDEF'' (rooms demo_running))
         \<and> snd (disconnect_handler ''g'' 9 s2)
           = [ToRoom ''ABCDEF'' (StateRaw [demo_host\<lparr>throttle := 1, brake := 0, steer := 0,
                                                       refuel := True, lastHeard := 5\<rparr>])]
         \<and> snd (disconnect_handler ''g'' 9 s2) \<noteq> snd (disconnect_handler ''g'' 9 demo_running))"
  by (simp add: disconnect_handler_def input_handler_def my_player_def my_room_def Let_def
      demo_running_def demo_lobby_def demo_room_def demo_host_def demo_guest_def demo_input_def
      makePlayer_def obj_keys_def obj_values_def snapshotRoom_def clamp_field_def js_or_def)

section \<open>Ready flags and the start of the game\<close>

lemma ready_idle: "idle_stage now (p\<lparr>ready := b\<rparr>) = (idle_stage now p)\<lparr>ready := b\<rparr>"
  by (simp add: idle_stage_def)

lemma ready_speed: "speed_stage r (p\<lparr>ready := b\<rparr>) = (speed_stage r p)\<lparr>ready := b\<rparr>"
  by (simp add: speed_stage_def Let_def)

lemma ready_steer: "steer_stage (p\<lparr>ready := b\<rparr>) = (steer_stage p)\<lparr>ready := b\<rparr>"
  by (simp add: steer_stage_def Let_def)

lemma ready_move: "move_stage (p\<lparr>ready := b\<rparr>) = (move_stage p)\<lparr>ready := b\<rparr>"
  by (simp add: move_stage_def Let_def)

lemma ready_burn: "burn_stage r (p\<lparr>ready := b\<rparr>) = (burn_stage r p)\<lparr>ready := b\<rparr>"
  by (simp add: burn_stage_def Let_def)

lemma ready_refuel: "refuel_stage sd (p\<lparr>ready := b\<rparr>) = (refuel_stage sd p)\<lparr>ready := b\<rparr>"
  by (simp add: refuel_stage_def Let_def)

lemma ready_exhaust: "exhaust_stage (p\<lparr>ready := b\<rparr>) = (exhaust_stage p)\<lparr>ready := b\<rparr>"
  by (simp add: exhaust_stage_def)

lemma ready_tickPlayer: "tickPlayer now sd (p\<lparr>ready := b\<rparr>) = (tickPlayer now sd p)\<lparr>ready := b\<rparr>"
  by (simp add: tickPlayer_def Let_def ready_idle ready_speed ready_steer ready_move ready_burn
      ready_refuel ready_exhaust)

text \<open>
  Claim C10. The ready flags gate nothing. When the caller of \<^verbatim>\<open>startGame\<close> is a
  player of its room with the host flag, the room's phase becomes running, whatever the
  ready flags of the players are; the theorem asks nothing of them. \<^verbatim>\<open>setReady\<close>
  replaces the caller's player by the same record with the ready field set to the
  coerced argument, so position, speed, fuel, distance and host flag stay; the other
  players and the order of the players stay; the room keeps every field but the players,
  so its phase and its seed stay; the other rooms stay. The simulation does not read
  the flag: a tick of a player with another ready flag gives the same player with that
  flag.
\<close>

theorem ready_never_gates:
  assumes "my_player sid s = Some (c, r, p)"
  shows "(isHost p \<longrightarrow>
            fst (startGame_handler sid s) = s\<lparr>rooms := obj_set c (r\<lparr>phase := Running\<rparr>) (rooms s)\<rparr>
            \<and> my_room sid (fst (startGame_handler sid s)) = Some (c, r\<lparr>phase := Running\<rparr>))
         \<and> (\<exists>r'. fst (setReady_handler sid v s) = s\<lparr>rooms := obj_set c r' (rooms s)\<rparr>
               \<and> my_player sid (fst (setReady_handler sid v s))
                   = Some (c, r', p\<lparr>ready := ToBoolean v\<rparr>)
               \<and> (\<forall>k. k \<noteq> sid \<longrightarrow> obj_get k (players r') = obj_get k (players r))
               \<and> obj_keys (players r') = obj_keys (players r)
               \<and> r' = r\<lparr>players := players r'\<rparr>
               \<and> (\<forall>c'. c' \<noteq> c \<longrightarrow>
                     obj_get c' (rooms (fst (setReady_handler sid v s))) = obj_get c' (rooms s)))
         \<and> tickPlayer t sd (q\<lparr>ready := b\<rparr>) = (tickPlayer t sd q)\<lparr>ready := b\<rparr>"
proof -
  note D = my_player_D[OF assms]
  have keys: "obj_keys (obj_set sid q (players r)) = obj_keys (players r)" for q
    using D by (simp add: obj_keys_set_present)
  have start: "isHost p \<Longrightarrow>
      fst (startGame_handler sid s) = s\<lparr>rooms := obj_set c (r\<lparr>phase := Running\<rparr>) (rooms s)\<rparr>"
    by (simp add: startGame_handler_def assms)
  have start2: "isHost p \<Longrightarrow> my_room sid (fst (startGame_handler sid s)) = Some (c, r\<lparr>phase := Running\<rparr>)"
    using D by (simp add: start my_room_def obj_get_set)
  let ?r' = "r\<lparr>players := obj_set sid (p\<lparr>ready := ToBoolean v\<rparr>) (players r)\<rparr>"
  have rdy: "fst (setReady_handler sid v s) = s\<lparr>rooms := obj_set c ?r' (rooms s)\<rparr>"
    by (simp add: setReady_handler_def assms Let_def)
  have "my_player sid (fst (setReady_handler sid v s)) = Some (c, ?r', p\<lparr>ready := ToBoolean v\<rparr>)"
    unfolding rdy by (rule my_player_put[OF assms])
  moreover have "\<forall>k. k \<noteq> sid \<longrightarrow> obj_get k (players ?r') = obj_get k (players r)"
    by (simp add: obj_get_set)
  moreover have "obj_keys (players ?r') = obj_keys (players r)"
    by (simp add: keys)
  moreover have "?r' = r\<lparr>players := players ?r'\<rparr>"
    by simp
  moreover have "\<forall>c'. c' \<noteq> c \<longrightarrow>
      obj_get c' (rooms (fst (setReady_handler sid v s))) = obj_get c' (rooms s)"
    unfolding rdy by (simp add: obj_get_set)
  ultimately show ?thesis
    using start start2 rdy ready_tickPlayer by blast
qed

text \<open>
  The theorem on the example lobby, where nobody is ready: the host starts the game, and
  the host's \<^verbatim>\<open>setReady(true)\<close> changes the ready field alone.
\<close>

theorem ready_never_gates_witness:
  "my_player ''h'' demo_lobby = Some (''ABCDEF'', demo_room, demo_host) \<and> isHost demo_host
   \<and> \<not> ready demo_host \<and> \<not> ready demo_guest
   \<and> fst (startGame_handler ''h'' demo_lobby) = demo_running
   \<and> (\<exists>r'. my_player ''h'' (fst (setReady_handler ''h'' (JBool True) demo_lobby))
         = Some (''ABCDEF'', r', demo_host\<lparr>ready := True\<rparr>))
   \<and> tickPlayer 3 0 (demo_host\<lparr>ready := True\<rparr>) = demo_host\<lparr>ready := True\<rparr>"
proof -
  have host: "isHost demo_host" "\<not> ready demo_host" "\<not> ready demo_guest"
    by (simp_all add: demo_host_def demo_guest_def makePlayer_def)
  have run: "demo_lobby\<lparr>rooms := obj_set ''ABCDEF'' (demo_room\<lparr>phase := Running\<rparr>) (rooms demo_lobby)\<rparr>
             = demo_running"
    by (simp add: demo_running_def demo_lobby_def)
  have parked: "tickPlayer 3 0 demo_host = demo_host"
    by (rule parked_stays) (simp_all add: demo_host_def makePlayer_def)
  from ready_never_gates[OF my_player_demo_host, where v = "JBool True" and t = 3 and sd = 0
      and q = demo_host and b = True] host(1)
  have "fst (startGame_handler ''h'' demo_lobby) = demo_running"
    and "\<exists>r'. my_player ''h'' (fst (setReady_handler ''h'' (JBool True) demo_lobby))
           = Some (''ABCDEF'', r', demo_host\<lparr>ready := True\<rparr>)"
    and "tickPlayer 3 0 (demo_host\<lparr>ready := True\<rparr>) = demo_host\<lparr>ready := True\<rparr>"
    by (auto simp: run parked)
  with host my_player_demo_host show ?thesis
    by blast
qed

end
